theory Spec2Isabelle
  imports Main "HOL-Library.Sublist"
begin

section \<open>The REST client (src/api.ts)\<close>

text \<open>
  JavaScript truthiness of the two kinds of value the component tests: a string is
  falsy when it is empty, a \<open>string | null\<close> when it is null or empty.
\<close>

definition truthy_str :: "string \<Rightarrow> bool" where
  "truthy_str x = (x \<noteq> [])"

definition truthy :: "string option \<Rightarrow> bool" where
  "truthy x = (case x of None \<Rightarrow> False | Some v \<Rightarrow> truthy_str v)"

definition BACKEND :: string where
  "BACKEND = ''http://192.168.1.56:8000''"

text \<open>
  What \<open>fetch\<close> is called with. The body is the object handed to \<open>JSON.stringify\<close>,
  kept as its list of fields; \<open>None\<close> is a request without a body.
\<close>

record request =
  url :: string
  verb :: string
  headers :: "(string \<times> string) list"
  body :: "(string \<times> string) list option"

text \<open>
  What \<open>fetch\<close> gives back. \<open>Rejected m\<close> is a transport failure (the promise rejects
  with an error whose message is \<open>m\<close>). Otherwise there is a response with its \<open>ok\<close>
  flag and status text; reading its JSON either fails (\<open>Unparsable\<close>, again with the
  error's message) or yields an object, of which the wrapper looks at the \<open>message\<close>
  property (\<open>None\<close> when absent) when the status is an error and which it returns as
  the typed payload otherwise.
\<close>

datatype 'a json = Unparsable string | Parsed "string option" 'a

record 'a response =
  ok :: bool
  statusText :: string
  json :: "'a json"

datatype 'a fetched = Rejected string | Responded "'a response"

text \<open>
  An exported function of api.ts: the console lines it writes, the request it issues,
  and how the promise it returns settles once the fetch has settled (\<open>Inl m\<close>: it
  throws an error with message \<open>m\<close>; \<open>Inr v\<close>: it resolves to \<open>v\<close>).
\<close>

record 'a api_call =
  console :: "string list list"
  req :: request
  result :: "'a fetched \<Rightarrow> string + 'a"

text \<open>The read operations: \<open>if (!r.ok) throw new Error(msg); return r.json()\<close>.\<close>

definition read_result :: "string \<Rightarrow> 'a fetched \<Rightarrow> string + 'a" where
  "read_result msg f =
     (case f of
        Rejected m \<Rightarrow> Inl m
      | Responded r \<Rightarrow>
          if \<not> ok r then Inl msg
          else (case json r of Unparsable m \<Rightarrow> Inl m | Parsed _ v \<Rightarrow> Inr v))"

text \<open>
  The job and video operations:
  \<open>if (!r.ok) { const errorBody = await r.json();
     throw new Error(label + (errorBody.message || r.statusText)) } return r.json()\<close>.
\<close>

definition post_result :: "string \<Rightarrow> 'a fetched \<Rightarrow> string + 'a" where
  "post_result label f =
     (case f of
        Rejected m \<Rightarrow> Inl m
      | Responded r \<Rightarrow>
          if \<not> ok r
          then (case json r of
                  Unparsable m \<Rightarrow> Inl m
                | Parsed msg _ \<Rightarrow>
                    Inl (label @ (if truthy msg then the msg else statusText r)))
          else (case json r of Unparsable m \<Rightarrow> Inl m | Parsed _ v \<Rightarrow> Inr v))"

definition GET :: "string \<Rightarrow> request" where
  "GET u = \<lparr>url = u, verb = ''GET'', headers = [], body = None\<rparr>"

definition POST :: "string \<Rightarrow> request" where
  "POST u = \<lparr>url = u, verb = ''POST'', headers = [], body = None\<rparr>"

definition POST_json :: "string \<Rightarrow> (string \<times> string) list \<Rightarrow> request" where
  "POST_json u obj =
     \<lparr>url = u, verb = ''POST'',
      headers = [(''Content-Type'', ''application/json'')], body = Some obj\<rparr>"

definition getCameras :: "string \<Rightarrow> 'a api_call" where
  "getCameras boardId =
     \<lparr>console = [], req = GET (BACKEND @ ''/cameras?board_id='' @ boardId),
      result = read_result ''Failed to fetch cameras''\<rparr>"

definition getModels :: "string \<Rightarrow> 'a api_call" where
  "getModels boardId =
     \<lparr>console = [], req = GET (BACKEND @ ''/models?board_id='' @ boardId),
      result = read_result ''Failed to fetch models''\<rparr>"

definition startJob :: "string \<Rightarrow> string \<Rightarrow> string \<Rightarrow> 'a api_call" where
  "startJob boardId cameraId modelId =
     \<lparr>console = [[''[API] Starting job with:'', boardId, cameraId, modelId]],
      req = POST_json (BACKEND @ ''/jobs/start'')
              [(''board_id'', boardId), (''camera'', cameraId), (''model'', modelId)],
      result = post_result ''Failed to start job: ''\<rparr>"

definition stopJob :: "string \<Rightarrow> 'a api_call" where
  "stopJob jobId =
     \<lparr>console = [[''[API] Stopping job:'', jobId]],
      req = POST (BACKEND @ ''/jobs/stop''),
      result = post_result ''Failed to stop job: ''\<rparr>"

definition pauseVideo :: "string \<Rightarrow> 'a api_call" where
  "pauseVideo boardId =
     \<lparr>console = [], req = POST_json (BACKEND @ ''/pause_video'') [(''board_id'', boardId)],
      result = post_result ''Failed to pause video: ''\<rparr>"

definition resumeVideo :: "string \<Rightarrow> 'a api_call" where
  "resumeVideo boardId =
     \<lparr>console = [], req = POST_json (BACKEND @ ''/resume_video'') [(''board_id'', boardId)],
      result = post_result ''Failed to resume video: ''\<rparr>"

text \<open>\<open>getRecentEvents(limit)\<close>; the component always passes 20, so the limit is kept as text.\<close>

definition getRecentEvents :: "string \<Rightarrow> 'a api_call" where
  "getRecentEvents limit =
     \<lparr>console = [], req = GET (BACKEND @ ''/events/recent?limit='' @ limit),
      result = read_result ''Failed to fetch events''\<rparr>"

definition getProfiling :: "string \<Rightarrow> 'a api_call" where
  "getProfiling jobId =
     \<lparr>console = [], req = GET (BACKEND @ ''/profiling/'' @ jobId),
      result = read_result ''Failed to fetch profiling data''\<rparr>"

section \<open>The dashboard component (src/App.tsx, kept as src/unnamed/part_000)\<close>

subsection \<open>State\<close>

record CameraItem =
  camera_id :: string
  camera_name :: string
  camera_path :: string

record ModelItem =
  model_id :: string
  model_name :: string
  model_path :: "string option"
  model_script :: "string option"
  model_file :: "string option"

text \<open>What the component reads of the answer to a start request.\<close>

record start_result =
  job_id :: string
  stream_url :: string

text \<open>
  The callbacks handed to \<open>setInterval\<close> and \<open>setTimeout\<close>, with the values their
  closures captured: \<open>loadProfiling\<close> reads the \<open>jobId\<close> of the render that created it, the
  warm-up timer holds the stream address of the start answer, and the settle delay of
  \<open>onStart\<close> resumes with the three selections of the render it was called in.
\<close>

datatype interval_cb = LoadEvents | LoadProfiling "string option" | LoadSavedFrames | CountdownTick

datatype timeout_cb = WarmUp string | SettleDelay string string string

text \<open>
  What is left to run of an async function suspended at an \<open>await\<close> on a request, again
  with the captured values (\<open>PauseK\<close>: the \<open>isPaused\<close> seen when \<open>onPause\<close> was called).
\<close>

datatype cont =
    StartK string string string
  | StopK string
  | PauseK bool string
  | CatalogK string
  | EventsK
  | ProfilingK string
  | SavedFramesK

text \<open>
  The component's state: its \<open>useState\<close> cells (those the handlers and effects below
  touch), its interval refs, and the part of the browser it acts on: the interval timers
  alive (with their ids), the one-shot timers not yet fired, the id the next timer will
  get, the requests awaited, the requests issued so far and the alerts shown. Events,
  profiling snapshots and saved frames are only stored and displayed, so their types are
  parameters. \<open>countdownTimer\<close> is the constant \<open>t\<close> of the countdown effect, which its
  cleanup closes over.
\<close>

record ('e, 'p, 'f) app =
  cameras :: "CameraItem list"
  models :: "ModelItem list"
  selectedBoardId :: string
  selectedCameraId :: string
  selectedModelId :: string
  jobId :: "string option"
  streamUrl :: string
  busy :: bool
  isPaused :: bool
  imageLoaded :: bool
  streamError :: "string option"
  countdown :: int
  loadingModels :: bool
  events :: "'e list"
  selectedEvent :: "'e option"
  savedFrames :: "'f list"
  profiling :: "'p option"
  isVideoMinimized :: bool
  eventsIntervalRef :: "nat option"
  profilingIntervalRef :: "nat option"
  savedFramesIntervalRef :: "nat option"
  countdownTimer :: "nat option"
  intervals :: "(nat \<times> interval_cb) list"
  timeouts :: "timeout_cb list"
  nextTimer :: nat
  pending :: "cont list"
  network :: "request list"
  alerts :: "string list"

text \<open>The state after the first render; the effects of the mount change nothing in it.\<close>

definition init :: "('e, 'p, 'f) app" where
  "init =
     \<lparr>cameras = [], models = [], selectedBoardId = [], selectedCameraId = [],
      selectedModelId = [], jobId = None, streamUrl = [], busy = False, isPaused = False,
      imageLoaded = False, streamError = None, countdown = 0, loadingModels = False,
      events = [], selectedEvent = None, savedFrames = [], profiling = None,
      isVideoMinimized = False, eventsIntervalRef = None, profilingIntervalRef = None,
      savedFramesIntervalRef = None, countdownTimer = None, intervals = [], timeouts = [],
      nextTimer = 1, pending = [], network = [], alerts = []\<rparr>"

subsection \<open>Timers and requests\<close>

text \<open>
  \<open>setInterval\<close> returns the id \<open>nextTimer s\<close>; ids are positive, so the test
  \<open>if (ref.current)\<close> before each \<open>clearInterval\<close> is the test that the ref is not null.
\<close>

definition setInterval :: "interval_cb \<Rightarrow> ('e, 'p, 'f) app \<Rightarrow> ('e, 'p, 'f) app" where
  "setInterval cb s =
     s\<lparr>intervals := intervals s @ [(nextTimer s, cb)], nextTimer := Suc (nextTimer s)\<rparr>"

definition clearInterval :: "nat option \<Rightarrow> ('e, 'p, 'f) app \<Rightarrow> ('e, 'p, 'f) app" where
  "clearInterval r s =
     (case r of
        None \<Rightarrow> s
      | Some i \<Rightarrow> s\<lparr>intervals := filter (\<lambda>e. fst e \<noteq> i) (intervals s)\<rparr>)"

definition setTimeout :: "timeout_cb \<Rightarrow> ('e, 'p, 'f) app \<Rightarrow> ('e, 'p, 'f) app" where
  "setTimeout cb s = s\<lparr>timeouts := timeouts s @ [cb]\<rparr>"

definition await :: "request list \<Rightarrow> cont \<Rightarrow> ('e, 'p, 'f) app \<Rightarrow> ('e, 'p, 'f) app" where
  "await rs k s = s\<lparr>network := network s @ rs, pending := pending s @ [k]\<rparr>"

definition alert :: "string \<Rightarrow> ('e, 'p, 'f) app \<Rightarrow> ('e, 'p, 'f) app" where
  "alert m s = s\<lparr>alerts := alerts s @ [m]\<rparr>"

subsection \<open>Pollers\<close>

definition loadEvents :: "('e, 'p, 'f) app \<Rightarrow> ('e, 'p, 'f) app" where
  "loadEvents s = await [req (getRecentEvents ''20'' :: 'e list api_call)] EventsK s"

definition loadEvents_settled :: "'e list fetched \<Rightarrow> ('e, 'p, 'f) app \<Rightarrow> ('e, 'p, 'f) app" where
  "loadEvents_settled f s =
     (case result (getRecentEvents ''20'') f of
        Inr ev \<Rightarrow> s\<lparr>events := ev\<rparr>
      | Inl e \<Rightarrow> s)"

text \<open>\<open>loadProfiling\<close>, with the \<open>jobId\<close> its closure holds; a falsy answer is not stored.\<close>

definition loadProfiling :: "string option \<Rightarrow> ('e, 'p, 'f) app \<Rightarrow> ('e, 'p, 'f) app" where
  "loadProfiling j s =
     (if \<not> truthy j then s
      else await [req (getProfiling (the j) :: 'p option api_call)] (ProfilingK (the j)) s)"

definition loadProfiling_settled ::
  "string \<Rightarrow> 'p option fetched \<Rightarrow> ('e, 'p, 'f) app \<Rightarrow> ('e, 'p, 'f) app" where
  "loadProfiling_settled j f s =
     (case result (getProfiling j) f of
        Inr data \<Rightarrow> (case data of Some d \<Rightarrow> s\<lparr>profiling := Some d\<rparr> | None \<Rightarrow> s)
      | Inl e \<Rightarrow> s)"

text \<open>\<open>loadSavedFrames\<close> calls \<open>fetch\<close> itself and ignores an answer that is not ok.\<close>

definition loadSavedFrames :: "('e, 'p, 'f) app \<Rightarrow> ('e, 'p, 'f) app" where
  "loadSavedFrames s = await [GET (BACKEND @ ''/saved_frames'')] SavedFramesK s"

definition loadSavedFrames_settled ::
  "'f list fetched \<Rightarrow> ('e, 'p, 'f) app \<Rightarrow> ('e, 'p, 'f) app" where
  "loadSavedFrames_settled f s =
     (case f of
        Rejected m \<Rightarrow> s
      | Responded r \<Rightarrow>
          if ok r
          then (case json r of Unparsable m \<Rightarrow> s | Parsed _ frames \<Rightarrow> s\<lparr>savedFrames := frames\<rparr>)
          else s)"

subsection \<open>Effects\<close>

text \<open>
  Each \<open>useEffect\<close> is split into the cleanup its previous run returned and its body.
  The three poller effects depend on \<open>jobId\<close>, the countdown effect on \<open>countdown\<close>, the
  catalog effect on \<open>selectedBoardId\<close>.
\<close>

definition catalog_effect :: "('e, 'p, 'f) app \<Rightarrow> ('e, 'p, 'f) app" where
  "catalog_effect s =
     (if \<not> truthy_str (selectedBoardId s) then s\<lparr>cameras := [], models := []\<rparr>
      else await [req (getCameras (selectedBoardId s) :: CameraItem list api_call),
                  req (getModels (selectedBoardId s) :: ModelItem list api_call)]
             (CatalogK (selectedBoardId s)) (s\<lparr>loadingModels := True\<rparr>))"

text \<open>
  \<open>Promise.all\<close> resolves when both fetches have resolved and rejects when one of them
  rejects; the lists are replaced in the first case only, the loading flag falls in both.
\<close>

definition catalog_settled ::
  "string \<Rightarrow> CameraItem list fetched \<Rightarrow> ModelItem list fetched \<Rightarrow>
   ('e, 'p, 'f) app \<Rightarrow> ('e, 'p, 'f) app" where
  "catalog_settled b fc fm s =
     (case result (getCameras b) fc of
        Inl e \<Rightarrow> s
      | Inr c \<Rightarrow>
          (case result (getModels b) fm of
             Inl e \<Rightarrow> s
           | Inr m \<Rightarrow> s\<lparr>cameras := c, models := m\<rparr>))
     \<lparr>loadingModels := False\<rparr>"

definition events_cleanup :: "('e, 'p, 'f) app \<Rightarrow> ('e, 'p, 'f) app" where
  "events_cleanup s = clearInterval (eventsIntervalRef s) s"

definition events_effect :: "('e, 'p, 'f) app \<Rightarrow> ('e, 'p, 'f) app" where
  "events_effect s =
     (if \<not> truthy (jobId s) then clearInterval (eventsIntervalRef s) s
      else (let s1 = loadEvents s
            in (setInterval LoadEvents s1)\<lparr>eventsIntervalRef := Some (nextTimer s1)\<rparr>))"

definition profiling_cleanup :: "('e, 'p, 'f) app \<Rightarrow> ('e, 'p, 'f) app" where
  "profiling_cleanup s = clearInterval (profilingIntervalRef s) s"

definition profiling_effect :: "('e, 'p, 'f) app \<Rightarrow> ('e, 'p, 'f) app" where
  "profiling_effect s =
     (if \<not> truthy (jobId s)
      then (clearInterval (profilingIntervalRef s) s)\<lparr>profiling := None\<rparr>
      else (let s1 = loadProfiling (jobId s) s
            in (setInterval (LoadProfiling (jobId s)) s1)
                 \<lparr>profilingIntervalRef := Some (nextTimer s1)\<rparr>))"

definition savedFrames_cleanup :: "('e, 'p, 'f) app \<Rightarrow> ('e, 'p, 'f) app" where
  "savedFrames_cleanup s = clearInterval (savedFramesIntervalRef s) s"

definition savedFrames_effect :: "('e, 'p, 'f) app \<Rightarrow> ('e, 'p, 'f) app" where
  "savedFrames_effect s =
     (if \<not> truthy (jobId s)
      then (clearInterval (savedFramesIntervalRef s) s)\<lparr>savedFrames := []\<rparr>
      else (let s1 = loadSavedFrames s
            in (setInterval LoadSavedFrames s1)\<lparr>savedFramesIntervalRef := Some (nextTimer s1)\<rparr>))"

definition countdown_cleanup :: "('e, 'p, 'f) app \<Rightarrow> ('e, 'p, 'f) app" where
  "countdown_cleanup s = clearInterval (countdownTimer s) s"

definition countdown_effect :: "('e, 'p, 'f) app \<Rightarrow> ('e, 'p, 'f) app" where
  "countdown_effect s =
     (if countdown s \<le> 0 then s
      else (setInterval CountdownTick s)\<lparr>countdownTimer := Some (nextTimer s)\<rparr>)"

definition job_cleanups :: "('e, 'p, 'f) app \<Rightarrow> ('e, 'p, 'f) app" where
  "job_cleanups s = savedFrames_cleanup (profiling_cleanup (events_cleanup s))"

definition job_effects :: "('e, 'p, 'f) app \<Rightarrow> ('e, 'p, 'f) app" where
  "job_effects s = savedFrames_effect (profiling_effect (events_effect s))"

text \<open>
  What React does after a handler (or a continuation, or a timer callback) has run and
  the state went from \<open>prev\<close> to \<open>s\<close>: for every effect with a changed dependency, first
  the cleanups (an effect has one when its previous run got past the early return), then
  the bodies, both in the order of the source. The state the bodies set is no dependency
  of any effect, so one round is all.
\<close>

definition commit :: "('e, 'p, 'f) app \<Rightarrow> ('e, 'p, 'f) app \<Rightarrow> ('e, 'p, 'f) app" where
  "commit prev s =
     (let board = (selectedBoardId s \<noteq> selectedBoardId prev);
          job = (jobId s \<noteq> jobId prev);
          cd = (countdown s \<noteq> countdown prev);
          s1 = (if job \<and> truthy (jobId prev) then job_cleanups s else s);
          s2 = (if cd \<and> 0 < countdown prev then countdown_cleanup s1 else s1);
          s3 = (if board then catalog_effect s2 else s2);
          s4 = (if job then job_effects s3 else s3)
      in if cd then countdown_effect s4 else s4)"

subsection \<open>Guards\<close>

definition canStart :: "('e, 'p, 'f) app \<Rightarrow> bool" where
  "canStart s =
     (truthy_str (selectedBoardId s) \<and> truthy_str (selectedCameraId s) \<and>
      truthy_str (selectedModelId s) \<and> \<not> busy s \<and> \<not> truthy (jobId s))"

definition canStop :: "('e, 'p, 'f) app \<Rightarrow> bool" where
  "canStop s = (truthy (jobId s) \<and> \<not> busy s)"

definition canPause :: "('e, 'p, 'f) app \<Rightarrow> bool" where
  "canPause s = (truthy (jobId s) \<and> \<not> busy s)"

text \<open>The \<open>disabled\<close> attributes of the three selectors.\<close>

definition board_select_disabled :: "('e, 'p, 'f) app \<Rightarrow> bool" where
  "board_select_disabled s = (truthy (jobId s) \<or> busy s)"

definition model_select_disabled :: "('e, 'p, 'f) app \<Rightarrow> bool" where
  "model_select_disabled s =
     (truthy (jobId s) \<or> busy s \<or> \<not> truthy_str (selectedBoardId s) \<or> loadingModels s)"

definition camera_select_disabled :: "('e, 'p, 'f) app \<Rightarrow> bool" where
  "camera_select_disabled s =
     (truthy (jobId s) \<or> busy s \<or> \<not> truthy_str (selectedBoardId s))"

text \<open>
  The stream image, which carries the load and error handlers, is in the tree when a job
  is shown, the view is not paused and there is a stream address.
\<close>

definition stream_img_rendered :: "('e, 'p, 'f) app \<Rightarrow> bool" where
  "stream_img_rendered s = (truthy (jobId s) \<and> \<not> isPaused s \<and> truthy_str (streamUrl s))"

subsection \<open>Job controls\<close>

text \<open>
  \<open>onStart\<close> up to its first \<open>await\<close>: either the settle delay (\<open>if (jobId) await ...\<close>)
  or the start request.
\<close>

definition onStart :: "('e, 'p, 'f) app \<Rightarrow> ('e, 'p, 'f) app" where
  "onStart s =
     (if \<not> canStart s then s
      else (let s1 = s\<lparr>busy := True, imageLoaded := False, streamError := None,
                       countdown := 8, isPaused := False\<rparr>
            in if truthy (jobId s)
               then setTimeout
                      (SettleDelay (selectedBoardId s) (selectedCameraId s) (selectedModelId s)) s1
               else await [req (startJob (selectedBoardId s) (selectedCameraId s)
                                  (selectedModelId s) :: start_result api_call)]
                      (StartK (selectedBoardId s) (selectedCameraId s) (selectedModelId s)) s1))"

text \<open>\<open>onStart\<close> after the settle delay: the start request.\<close>

definition onStart_delayed ::
  "string \<Rightarrow> string \<Rightarrow> string \<Rightarrow> ('e, 'p, 'f) app \<Rightarrow> ('e, 'p, 'f) app" where
  "onStart_delayed b c m s =
     await [req (startJob b c m :: start_result api_call)] (StartK b c m) s"

text \<open>\<open>onStart\<close> after the start request: the rest of \<open>try\<close>, or \<open>catch\<close>, then \<open>finally\<close>.\<close>

definition onStart_settled ::
  "string + start_result \<Rightarrow> ('e, 'p, 'f) app \<Rightarrow> ('e, 'p, 'f) app" where
  "onStart_settled r s =
     (case r of
        Inr res \<Rightarrow> setTimeout (WarmUp (stream_url res)) (s\<lparr>jobId := Some (job_id res)\<rparr>)
      | Inl msg \<Rightarrow>
          (alert (''Start failed: '' @ msg) (s\<lparr>streamError := Some (''Failed to start: '' @ msg)\<rparr>))
            \<lparr>jobId := None, streamUrl := []\<rparr>)
     \<lparr>busy := False\<rparr>"

definition onStop :: "('e, 'p, 'f) app \<Rightarrow> ('e, 'p, 'f) app" where
  "onStop s =
     (if \<not> truthy (jobId s) \<or> busy s then s
      else await [req (stopJob (the (jobId s)) :: unit api_call)] (StopK (the (jobId s)))
             (s\<lparr>busy := True\<rparr>))"

definition onStop_settled :: "string + unit \<Rightarrow> ('e, 'p, 'f) app \<Rightarrow> ('e, 'p, 'f) app" where
  "onStop_settled r s =
     (case r of
        Inr ack \<Rightarrow>
          s\<lparr>jobId := None, streamUrl := [], imageLoaded := False, streamError := None,
            countdown := 0, isPaused := False, events := [], selectedEvent := None,
            profiling := None, savedFrames := [], isVideoMinimized := False\<rparr>
      | Inl msg \<Rightarrow> alert (''Stop failed: '' @ msg) s)
     \<lparr>busy := False\<rparr>"

definition onPause :: "('e, 'p, 'f) app \<Rightarrow> ('e, 'p, 'f) app" where
  "onPause s =
     (if \<not> truthy (jobId s) \<or> \<not> truthy_str (selectedBoardId s) then s
      else await [req (if isPaused s then resumeVideo (selectedBoardId s)
                       else pauseVideo (selectedBoardId s) :: unit api_call)]
             (PauseK (isPaused s) (selectedBoardId s)) (s\<lparr>busy := True\<rparr>))"

definition onPause_settled ::
  "bool \<Rightarrow> string + unit \<Rightarrow> ('e, 'p, 'f) app \<Rightarrow> ('e, 'p, 'f) app" where
  "onPause_settled wasPaused r s =
     (case r of
        Inr ack \<Rightarrow> s\<lparr>isPaused := \<not> wasPaused\<rparr>
      | Inl msg \<Rightarrow> alert (''Pause/resume failed: '' @ msg) s)
     \<lparr>busy := False\<rparr>"

subsection \<open>Stream handlers and selectors\<close>

definition handleImageLoad :: "('e, 'p, 'f) app \<Rightarrow> ('e, 'p, 'f) app" where
  "handleImageLoad s = s\<lparr>imageLoaded := True, streamError := None\<rparr>"

definition handleImageError :: "('e, 'p, 'f) app \<Rightarrow> ('e, 'p, 'f) app" where
  "handleImageError s =
     (let s1 = s\<lparr>imageLoaded := False\<rparr>
      in if countdown s = 0 \<and> truthy_str (streamUrl s) \<and> truthy (jobId s)
         then s1\<lparr>streamError := Some ''Connection error. Retrying...''\<rparr>
         else s1)"

definition board_onChange :: "string \<Rightarrow> ('e, 'p, 'f) app \<Rightarrow> ('e, 'p, 'f) app" where
  "board_onChange v s = s\<lparr>selectedBoardId := v, selectedCameraId := [], selectedModelId := []\<rparr>"

text \<open>The callbacks of the timers.\<close>

definition interval_fired :: "interval_cb \<Rightarrow> ('e, 'p, 'f) app \<Rightarrow> ('e, 'p, 'f) app" where
  "interval_fired cb s =
     (case cb of
        LoadEvents \<Rightarrow> loadEvents s
      | LoadProfiling j \<Rightarrow> loadProfiling j s
      | LoadSavedFrames \<Rightarrow> loadSavedFrames s
      | CountdownTick \<Rightarrow> s\<lparr>countdown := max 0 (countdown s - 1)\<rparr>)"

definition timeout_fired :: "timeout_cb \<Rightarrow> ('e, 'p, 'f) app \<Rightarrow> ('e, 'p, 'f) app" where
  "timeout_fired cb s =
     (case cb of
        WarmUp u \<Rightarrow> s\<lparr>streamUrl := u\<rparr>
      | SettleDelay b c m \<Rightarrow> onStart_delayed b c m s)"

subsection \<open>The event loop\<close>

text \<open>
  Everything that can happen to the component: the operator uses a control (a disabled
  control gives no event), an awaited request settles, a timer fires, the stream image
  loads or fails. A request settles only while it is awaited, a timer fires only
  while it is alive. Each event runs its piece of code to the end, then React commits.
\<close>

datatype ('e, 'p, 'f) event =
    SelectBoard string
  | SelectCamera string
  | SelectModel string
  | ClickStart
  | ClickStop
  | ClickPause
  | StartJobSettles string string string "start_result fetched"
  | StopJobSettles string "unit fetched"
  | PauseSettles bool string "unit fetched"
  | CatalogSettles string "CameraItem list fetched" "ModelItem list fetched"
  | EventsSettle "'e list fetched"
  | ProfilingSettles string "'p option fetched"
  | SavedFramesSettle "'f list fetched"
  | IntervalFires nat
  | TimeoutFires timeout_cb
  | ImageLoad
  | ImageError

definition resume :: "cont \<Rightarrow> ('e, 'p, 'f) app \<Rightarrow> ('e, 'p, 'f) app" where
  "resume k s = s\<lparr>pending := remove1 k (pending s)\<rparr>"

fun handle :: "('e, 'p, 'f) event \<Rightarrow> ('e, 'p, 'f) app \<Rightarrow> ('e, 'p, 'f) app" where
  "handle (SelectBoard v) s = (if board_select_disabled s then s else board_onChange v s)"
| "handle (SelectCamera v) s =
     (if camera_select_disabled s then s else s\<lparr>selectedCameraId := v\<rparr>)"
| "handle (SelectModel v) s =
     (if model_select_disabled s then s else s\<lparr>selectedModelId := v\<rparr>)"
| "handle ClickStart s = (if \<not> canStart s then s else onStart s)"
| "handle ClickStop s = (if \<not> canStop s then s else onStop s)"
| "handle ClickPause s = (if \<not> canPause s then s else onPause s)"
| "handle (StartJobSettles b c m f) s =
     (if StartK b c m \<in> set (pending s)
      then onStart_settled (result (startJob b c m) f) (resume (StartK b c m) s) else s)"
| "handle (StopJobSettles j f) s =
     (if StopK j \<in> set (pending s)
      then onStop_settled (result (stopJob j) f) (resume (StopK j) s) else s)"
| "handle (PauseSettles p b f) s =
     (if PauseK p b \<in> set (pending s)
      then onPause_settled p (result (if p then resumeVideo b else pauseVideo b) f)
             (resume (PauseK p b) s)
      else s)"
| "handle (CatalogSettles b fc fm) s =
     (if CatalogK b \<in> set (pending s)
      then catalog_settled b fc fm (resume (CatalogK b) s) else s)"
| "handle (EventsSettle f) s =
     (if EventsK \<in> set (pending s) then loadEvents_settled f (resume EventsK s) else s)"
| "handle (ProfilingSettles j f) s =
     (if ProfilingK j \<in> set (pending s)
      then loadProfiling_settled j f (resume (ProfilingK j) s) else s)"
| "handle (SavedFramesSettle f) s =
     (if SavedFramesK \<in> set (pending s)
      then loadSavedFrames_settled f (resume SavedFramesK s) else s)"
| "handle (IntervalFires i) s =
     (case map_of (intervals s) i of None \<Rightarrow> s | Some cb \<Rightarrow> interval_fired cb s)"
| "handle (TimeoutFires cb) s =
     (if cb \<in> set (timeouts s)
      then timeout_fired cb (s\<lparr>timeouts := remove1 cb (timeouts s)\<rparr>) else s)"
| "handle ImageLoad s = (if stream_img_rendered s then handleImageLoad s else s)"
| "handle ImageError s = (if stream_img_rendered s then handleImageError s else s)"

definition step :: "('e, 'p, 'f) event \<Rightarrow> ('e, 'p, 'f) app \<Rightarrow> ('e, 'p, 'f) app" where
  "step e s = commit s (handle e s)"

fun run :: "('e, 'p, 'f) event list \<Rightarrow> ('e, 'p, 'f) app \<Rightarrow> ('e, 'p, 'f) app" where
  "run [] s = s"
| "run (e # es) s = run es (step e s)"

subsection \<open>Notions used by the properties\<close>

text \<open>The continuations of the three job controls, and the settle delay among the timers.\<close>

fun is_op :: "cont \<Rightarrow> bool" where
  "is_op (StartK b c m) = True"
| "is_op (StopK j) = True"
| "is_op (PauseK p b) = True"
| "is_op k = False"

definition op_pending :: "('e, 'p, 'f) app \<Rightarrow> bool" where
  "op_pending s = list_ex is_op (pending s)"

fun is_settle :: "timeout_cb \<Rightarrow> bool" where
  "is_settle (SettleDelay b c m) = True"
| "is_settle (WarmUp u) = False"

definition settle_pending :: "('e, 'p, 'f) app \<Rightarrow> bool" where
  "settle_pending s = list_ex is_settle (timeouts s)"

text \<open>One round of the profiling poller: the interval fires, then the request settles.\<close>

definition profiling_tick ::
  "nat \<Rightarrow> string \<Rightarrow> 'p option fetched \<Rightarrow> ('e, 'p, 'f) app \<Rightarrow> ('e, 'p, 'f) app" where
  "profiling_tick i j f s = step (ProfilingSettles j f) (step (IntervalFires i) s)"

fun profiling_ticks ::
  "nat \<Rightarrow> string \<Rightarrow> 'p option fetched list \<Rightarrow> ('e, 'p, 'f) app \<Rightarrow> ('e, 'p, 'f) app" where
  "profiling_ticks i j [] s = s"
| "profiling_ticks i j (f # fs) s = profiling_ticks i j fs (profiling_tick i j f s)"

text \<open>The profiling snapshot displayed after each round of a sequence of rounds.\<close>

fun snapshots ::
  "nat \<Rightarrow> string \<Rightarrow> 'p option fetched list \<Rightarrow> ('e, 'p, 'f) app \<Rightarrow> 'p option list" where
  "snapshots i j [] s = []"
| "snapshots i j (f # fs) s =
     profiling (profiling_tick i j f s) # snapshots i j fs (profiling_tick i j f s)"

text \<open>
  The pollers scheduled, and the bookkeeping that lets the cleanups find them: every
  poller alive is the one its ref names.
\<close>

fun is_poller :: "interval_cb \<Rightarrow> bool" where
  "is_poller CountdownTick = False"
| "is_poller cb = True"

definition pollers :: "('e, 'p, 'f) app \<Rightarrow> (nat \<times> interval_cb) list" where
  "pollers s = filter (\<lambda>e. is_poller (snd e)) (intervals s)"

fun poller_ref :: "('e, 'p, 'f) app \<Rightarrow> interval_cb \<Rightarrow> nat option" where
  "poller_ref s LoadEvents = eventsIntervalRef s"
| "poller_ref s (LoadProfiling j) = profilingIntervalRef s"
| "poller_ref s LoadSavedFrames = savedFramesIntervalRef s"
| "poller_ref s CountdownTick = None"

definition tracked :: "('e, 'p, 'f) app \<Rightarrow> bool" where
  "tracked s =
     list_all (\<lambda>e. is_poller (snd e) \<longrightarrow> poller_ref s (snd e) = Some (fst e)) (intervals s)"

text \<open>The requests the pollers issue, recognised by their address.\<close>

definition is_poller_request :: "request \<Rightarrow> bool" where
  "is_poller_request r =
     (verb r = ''GET'' \<and>
      (prefix (BACKEND @ ''/events/recent'') (url r) \<or>
       prefix (BACKEND @ ''/profiling/'') (url r) \<or>
       url r = BACKEND @ ''/saved_frames''))"

definition poller_requests :: "('e, 'p, 'f) app \<Rightarrow> request list" where
  "poller_requests s = filter is_poller_request (network s)"

text \<open>The event that starts a job: a start request answered with success.\<close>

fun starts_job :: "('e, 'p, 'f) event \<Rightarrow> bool" where
  "starts_job (StartJobSettles b c m f) =
     (case result (startJob b c m) f of Inr res \<Rightarrow> True | Inl msg \<Rightarrow> False)"
| "starts_job e = False"

text \<open>The answer to the catalog requests, among the events.\<close>

fun is_catalog_reply :: "('e, 'p, 'f) event \<Rightarrow> bool" where
  "is_catalog_reply (CatalogSettles b fc fm) = True"
| "is_catalog_reply e = False"

text \<open>The job controls awaited, in the order they were issued.\<close>

fun is_start :: "cont \<Rightarrow> bool" where
  "is_start (StartK b c m) = True"
| "is_start k = False"

definition ops :: "('e, 'p, 'f) app \<Rightarrow> cont list" where
  "ops s = filter is_op (pending s)"

text \<open>
  One control at a time: while the busy flag is up exactly one job control is awaited,
  a start only without a job id, and otherwise none; and no settle delay is running.
\<close>

definition one_op :: "('e, 'p, 'f) app \<Rightarrow> bool" where
  "one_op s =
     (\<not> settle_pending s \<and>
      (case ops s of
         [] \<Rightarrow> \<not> busy s
       | [k] \<Rightarrow> busy s \<and> (is_start k \<longrightarrow> \<not> truthy (jobId s))
       | k # k' # ks \<Rightarrow> False))"

subsection \<open>A session\<close>

text \<open>
  The scenario of the specification: board b1 is selected, its cameras and models
  arrive, camera c1 and model m1 are selected, the job is started and the backend
  answers with job j42 and its stream address.
\<close>

definition ok_reply :: "'a \<Rightarrow> 'a fetched" where
  "ok_reply v = Responded \<lparr>ok = True, statusText = ''OK'', json = Parsed None v\<rparr>"

definition error_reply :: "string \<Rightarrow> 'a \<Rightarrow> 'a fetched" where
  "error_reply msg v =
     Responded \<lparr>ok = False, statusText = ''Internal Server Error'', json = Parsed (Some msg) v\<rparr>"

definition c1 :: CameraItem where
  "c1 = \<lparr>camera_id = ''c1'', camera_name = ''Front'', camera_path = ''/dev/video0''\<rparr>"

definition m1 :: ModelItem where
  "m1 = \<lparr>model_id = ''m1'', model_name = ''Plates'', model_path = None,
          model_script = None, model_file = None\<rparr>"

definition j42 :: start_result where
  "j42 = \<lparr>job_id = ''j42'', stream_url = ''http://192.168.1.56:8000/stream/j42''\<rparr>"

definition selecting :: "(nat, nat, nat) event list" where
  "selecting =
     [SelectBoard ''b1'', CatalogSettles ''b1'' (ok_reply [c1]) (ok_reply [m1]),
      SelectCamera ''c1'', SelectModel ''m1'']"

definition starting :: "(nat, nat, nat) event list" where
  "starting = selecting @ [ClickStart]"

definition running :: "(nat, nat, nat) event list" where
  "running = starting @ [StartJobSettles ''b1'' ''c1'' ''m1'' (ok_reply j42)]"

definition stopping :: "(nat, nat, nat) event list" where
  "stopping = running @ [ClickStop]"

definition pausing :: "(nat, nat, nat) event list" where
  "pausing = running @ [ClickPause]"

definition stopped :: "(nat, nat, nat) event list" where
  "stopped = stopping @ [StopJobSettles ''j42'' (ok_reply ())]"

text \<open>
  Further sessions: the countdown interval runs down (it is recreated, with a new id,
  each time the countdown changes) and the warm-up timer fires; the warm-up timer fires
  only after the job was stopped; the backend answers the start request with an empty
  job id; the operator moves on to board b2.
\<close>

definition warming :: "(nat, nat, nat) event list" where
  "warming =
     running @ [IntervalFires 1, IntervalFires 5, IntervalFires 6, IntervalFires 7,
                IntervalFires 8, IntervalFires 9, IntervalFires 10, IntervalFires 11]"

definition warmed_up :: "(nat, nat, nat) event list" where
  "warmed_up = warming @ [TimeoutFires (WarmUp (stream_url j42))]"

definition late_warm_up :: "(nat, nat, nat) event list" where
  "late_warm_up = stopped @ [TimeoutFires (WarmUp (stream_url j42))]"

definition unnamed :: start_result where
  "unnamed = \<lparr>job_id = [], stream_url = ''http://192.168.1.56:8000/stream''\<rparr>"

definition running_unnamed :: "(nat, nat, nat) event list" where
  "running_unnamed = starting @ [StartJobSettles ''b1'' ''c1'' ''m1'' (ok_reply unnamed)]"

definition reselecting :: "(nat, nat, nat) event list" where
  "reselecting = selecting @ [SelectBoard ''b2'']"

section \<open>How the effects act on the state\<close>

text \<open>The request of each function of the client, whatever the type of its payload.\<close>

lemma req_simps [simp]:
  "req (getCameras b) = GET (BACKEND @ ''/cameras?board_id='' @ b)"
  "req (getModels b) = GET (BACKEND @ ''/models?board_id='' @ b)"
  "req (startJob b c m) =
     POST_json (BACKEND @ ''/jobs/start'') [(''board_id'', b), (''camera'', c), (''model'', m)]"
  "req (stopJob j) = POST (BACKEND @ ''/jobs/stop'')"
  "req (pauseVideo b) = POST_json (BACKEND @ ''/pause_video'') [(''board_id'', b)]"
  "req (resumeVideo b) = POST_json (BACKEND @ ''/resume_video'') [(''board_id'', b)]"
  "req (getRecentEvents n) = GET (BACKEND @ ''/events/recent?limit='' @ n)"
  "req (getProfiling j) = GET (BACKEND @ ''/profiling/'' @ j)"
  by (simp_all add: getCameras_def getModels_def startJob_def stopJob_def pauseVideo_def
      resumeVideo_def getRecentEvents_def getProfiling_def)

text \<open>\<open>clearInterval\<close> without the case distinction.\<close>

lemma clearInterval_eq:
  "clearInterval r s = s\<lparr>intervals := filter (\<lambda>e. Some (fst e) \<noteq> r) (intervals s)\<rparr>"
  by (cases r) (simp_all add: clearInterval_def)

lemmas prim_defs = setInterval_def clearInterval_eq setTimeout_def await_def alert_def

lemmas poll_defs = loadEvents_def loadProfiling_def loadSavedFrames_def

text \<open>
  No effect writes the job id, the busy flag, the selections, the stream state, the
  countdown, the events, the alerts or the one-shot timers.
\<close>

lemma catalog_effect_frame [simp]:
  "busy (catalog_effect s) = busy s" "jobId (catalog_effect s) = jobId s"
  "timeouts (catalog_effect s) = timeouts s" "streamUrl (catalog_effect s) = streamUrl s"
  "selectedBoardId (catalog_effect s) = selectedBoardId s" "selectedCameraId (catalog_effect s) = selectedCameraId s"
  "selectedModelId (catalog_effect s) = selectedModelId s" "isPaused (catalog_effect s) = isPaused s"
  "imageLoaded (catalog_effect s) = imageLoaded s" "streamError (catalog_effect s) = streamError s"
  "countdown (catalog_effect s) = countdown s" "events (catalog_effect s) = events s"
  "selectedEvent (catalog_effect s) = selectedEvent s" "isVideoMinimized (catalog_effect s) = isVideoMinimized s"
  "alerts (catalog_effect s) = alerts s"
  by (simp_all add: catalog_effect_def prim_defs poll_defs)

lemma events_cleanup_frame [simp]:
  "busy (events_cleanup s) = busy s" "jobId (events_cleanup s) = jobId s"
  "timeouts (events_cleanup s) = timeouts s" "streamUrl (events_cleanup s) = streamUrl s"
  "selectedBoardId (events_cleanup s) = selectedBoardId s" "selectedCameraId (events_cleanup s) = selectedCameraId s"
  "selectedModelId (events_cleanup s) = selectedModelId s" "isPaused (events_cleanup s) = isPaused s"
  "imageLoaded (events_cleanup s) = imageLoaded s" "streamError (events_cleanup s) = streamError s"
  "countdown (events_cleanup s) = countdown s" "events (events_cleanup s) = events s"
  "selectedEvent (events_cleanup s) = selectedEvent s" "isVideoMinimized (events_cleanup s) = isVideoMinimized s"
  "alerts (events_cleanup s) = alerts s"
  by (simp_all add: events_cleanup_def prim_defs poll_defs)

lemma events_effect_frame [simp]:
  "busy (events_effect s) = busy s" "jobId (events_effect s) = jobId s"
  "timeouts (events_effect s) = timeouts s" "streamUrl (events_effect s) = streamUrl s"
  "selectedBoardId (events_effect s) = selectedBoardId s" "selectedCameraId (events_effect s) = selectedCameraId s"
  "selectedModelId (events_effect s) = selectedModelId s" "isPaused (events_effect s) = isPaused s"
  "imageLoaded (events_effect s) = imageLoaded s" "streamError (events_effect s) = streamError s"
  "countdown (events_effect s) = countdown s" "events (events_effect s) = events s"
  "selectedEvent (events_effect s) = selectedEvent s" "isVideoMinimized (events_effect s) = isVideoMinimized s"
  "alerts (events_effect s) = alerts s"
  by (simp_all add: events_effect_def Let_def prim_defs poll_defs)

lemma profiling_cleanup_frame [simp]:
  "busy (profiling_cleanup s) = busy s" "jobId (profiling_cleanup s) = jobId s"
  "timeouts (profiling_cleanup s) = timeouts s" "streamUrl (profiling_cleanup s) = streamUrl s"
  "selectedBoardId (profiling_cleanup s) = selectedBoardId s" "selectedCameraId (profiling_cleanup s) = selectedCameraId s"
  "selectedModelId (profiling_cleanup s) = selectedModelId s" "isPaused (profiling_cleanup s) = isPaused s"
  "imageLoaded (profiling_cleanup s) = imageLoaded s" "streamError (profiling_cleanup s) = streamError s"
  "countdown (profiling_cleanup s) = countdown s" "events (profiling_cleanup s) = events s"
  "selectedEvent (profiling_cleanup s) = selectedEvent s" "isVideoMinimized (profiling_cleanup s) = isVideoMinimized s"
  "alerts (profiling_cleanup s) = alerts s"
  by (simp_all add: profiling_cleanup_def prim_defs poll_defs)

lemma profiling_effect_frame [simp]:
  "busy (profiling_effect s) = busy s" "jobId (profiling_effect s) = jobId s"
  "timeouts (profiling_effect s) = timeouts s" "streamUrl (profiling_effect s) = streamUrl s"
  "selectedBoardId (profiling_effect s) = selectedBoardId s" "selectedCameraId (profiling_effect s) = selectedCameraId s"
  "selectedModelId (profiling_effect s) = selectedModelId s" "isPaused (profiling_effect s) = isPaused s"
  "imageLoaded (profiling_effect s) = imageLoaded s" "streamError (profiling_effect s) = streamError s"
  "countdown (profiling_effect s) = countdown s" "events (profiling_effect s) = events s"
  "selectedEvent (profiling_effect s) = selectedEvent s" "isVideoMinimized (profiling_effect s) = isVideoMinimized s"
  "alerts (profiling_effect s) = alerts s"
  by (simp_all add: profiling_effect_def Let_def prim_defs poll_defs)

lemma savedFrames_cleanup_frame [simp]:
  "busy (savedFrames_cleanup s) = busy s" "jobId (savedFrames_cleanup s) = jobId s"
  "timeouts (savedFrames_cleanup s) = timeouts s" "streamUrl (savedFrames_cleanup s) = streamUrl s"
  "selectedBoardId (savedFrames_cleanup s) = selectedBoardId s" "selectedCameraId (savedFrames_cleanup s) = selectedCameraId s"
  "selectedModelId (savedFrames_cleanup s) = selectedModelId s" "isPaused (savedFrames_cleanup s) = isPaused s"
  "imageLoaded (savedFrames_cleanup s) = imageLoaded s" "streamError (savedFrames_cleanup s) = streamError s"
  "countdown (savedFrames_cleanup s) = countdown s" "events (savedFrames_cleanup s) = events s"
  "selectedEvent (savedFrames_cleanup s) = selectedEvent s" "isVideoMinimized (savedFrames_cleanup s) = isVideoMinimized s"
  "alerts (savedFrames_cleanup s) = alerts s"
  by (simp_all add: savedFrames_cleanup_def prim_defs poll_defs)

lemma savedFrames_effect_frame [simp]:
  "busy (savedFrames_effect s) = busy s" "jobId (savedFrames_effect s) = jobId s"
  "timeouts (savedFrames_effect s) = timeouts s" "streamUrl (savedFrames_effect s) = streamUrl s"
  "selectedBoardId (savedFrames_effect s) = selectedBoardId s" "selectedCameraId (savedFrames_effect s) = selectedCameraId s"
  "selectedModelId (savedFrames_effect s) = selectedModelId s" "isPaused (savedFrames_effect s) = isPaused s"
  "imageLoaded (savedFrames_effect s) = imageLoaded s" "streamError (savedFrames_effect s) = streamError s"
  "countdown (savedFrames_effect s) = countdown s" "events (savedFrames_effect s) = events s"
  "selectedEvent (savedFrames_effect s) = selectedEvent s" "isVideoMinimized (savedFrames_effect s) = isVideoMinimized s"
  "alerts (savedFrames_effect s) = alerts s"
  by (simp_all add: savedFrames_effect_def Let_def prim_defs poll_defs)

lemma countdown_cleanup_frame [simp]:
  "busy (countdown_cleanup s) = busy s" "jobId (countdown_cleanup s) = jobId s"
  "timeouts (countdown_cleanup s) = timeouts s" "streamUrl (countdown_cleanup s) = streamUrl s"
  "selectedBoardId (countdown_cleanup s) = selectedBoardId s" "selectedCameraId (countdown_cleanup s) = selectedCameraId s"
  "selectedModelId (countdown_cleanup s) = selectedModelId s" "isPaused (countdown_cleanup s) = isPaused s"
  "imageLoaded (countdown_cleanup s) = imageLoaded s" "streamError (countdown_cleanup s) = streamError s"
  "countdown (countdown_cleanup s) = countdown s" "events (countdown_cleanup s) = events s"
  "selectedEvent (countdown_cleanup s) = selectedEvent s" "isVideoMinimized (countdown_cleanup s) = isVideoMinimized s"
  "alerts (countdown_cleanup s) = alerts s"
  by (simp_all add: countdown_cleanup_def prim_defs poll_defs)

lemma countdown_effect_frame [simp]:
  "busy (countdown_effect s) = busy s" "jobId (countdown_effect s) = jobId s"
  "timeouts (countdown_effect s) = timeouts s" "streamUrl (countdown_effect s) = streamUrl s"
  "selectedBoardId (countdown_effect s) = selectedBoardId s" "selectedCameraId (countdown_effect s) = selectedCameraId s"
  "selectedModelId (countdown_effect s) = selectedModelId s" "isPaused (countdown_effect s) = isPaused s"
  "imageLoaded (countdown_effect s) = imageLoaded s" "streamError (countdown_effect s) = streamError s"
  "countdown (countdown_effect s) = countdown s" "events (countdown_effect s) = events s"
  "selectedEvent (countdown_effect s) = selectedEvent s" "isVideoMinimized (countdown_effect s) = isVideoMinimized s"
  "alerts (countdown_effect s) = alerts s"
  by (simp_all add: countdown_effect_def prim_defs poll_defs)

lemma job_cleanups_frame [simp]:
  "busy (job_cleanups s) = busy s" "jobId (job_cleanups s) = jobId s"
  "timeouts (job_cleanups s) = timeouts s" "streamUrl (job_cleanups s) = streamUrl s"
  "selectedBoardId (job_cleanups s) = selectedBoardId s" "selectedCameraId (job_cleanups s) = selectedCameraId s"
  "selectedModelId (job_cleanups s) = selectedModelId s" "isPaused (job_cleanups s) = isPaused s"
  "imageLoaded (job_cleanups s) = imageLoaded s" "streamError (job_cleanups s) = streamError s"
  "countdown (job_cleanups s) = countdown s" "events (job_cleanups s) = events s"
  "selectedEvent (job_cleanups s) = selectedEvent s" "isVideoMinimized (job_cleanups s) = isVideoMinimized s"
  "alerts (job_cleanups s) = alerts s"
  by (simp_all add: job_cleanups_def)

lemma job_effects_frame [simp]:
  "busy (job_effects s) = busy s" "jobId (job_effects s) = jobId s"
  "timeouts (job_effects s) = timeouts s" "streamUrl (job_effects s) = streamUrl s"
  "selectedBoardId (job_effects s) = selectedBoardId s" "selectedCameraId (job_effects s) = selectedCameraId s"
  "selectedModelId (job_effects s) = selectedModelId s" "isPaused (job_effects s) = isPaused s"
  "imageLoaded (job_effects s) = imageLoaded s" "streamError (job_effects s) = streamError s"
  "countdown (job_effects s) = countdown s" "events (job_effects s) = events s"
  "selectedEvent (job_effects s) = selectedEvent s" "isVideoMinimized (job_effects s) = isVideoMinimized s"
  "alerts (job_effects s) = alerts s"
  by (simp_all add: job_effects_def)

lemma commit_frame [simp]:
  "busy (commit p s) = busy s" "jobId (commit p s) = jobId s"
  "timeouts (commit p s) = timeouts s" "streamUrl (commit p s) = streamUrl s"
  "selectedBoardId (commit p s) = selectedBoardId s" "selectedCameraId (commit p s) = selectedCameraId s"
  "selectedModelId (commit p s) = selectedModelId s" "isPaused (commit p s) = isPaused s"
  "imageLoaded (commit p s) = imageLoaded s" "streamError (commit p s) = streamError s"
  "countdown (commit p s) = countdown s" "events (commit p s) = events s"
  "selectedEvent (commit p s) = selectedEvent s" "isVideoMinimized (commit p s) = isVideoMinimized s"
  "alerts (commit p s) = alerts s"
  by (simp_all add: commit_def Let_def)

lemma commit_same:
  "selectedBoardId s = selectedBoardId p \<Longrightarrow> jobId s = jobId p \<Longrightarrow>
   countdown s = countdown p \<Longrightarrow> commit p s = s"
  by (simp add: commit_def)

lemma commit_refl [simp]: "commit s s = s"
  by (simp add: commit_same)

lemma click_stop:
  "canStop s \<Longrightarrow> jobId s = Some j \<Longrightarrow>
   step ClickStop s =
     s\<lparr>busy := True, network := network s @ [POST (BACKEND @ ''/jobs/stop'')],
       pending := pending s @ [StopK j]\<rparr>"
  by (simp add: step_def onStop_def canStop_def await_def commit_same)

lemma stop_settles_failure:
  "StopK j \<in> set (pending s) \<Longrightarrow> result (stopJob j) f = Inl m \<Longrightarrow>
   step (StopJobSettles j f) s =
     s\<lparr>pending := remove1 (StopK j) (pending s),
       alerts := alerts s @ [''Stop failed: '' @ m], busy := False\<rparr>"
  by (simp add: step_def onStop_settled_def resume_def alert_def commit_same)

lemmas handler_defs =
  onStart_def onStart_delayed_def onStart_settled_def onStop_def onStop_settled_def
  onPause_def onPause_settled_def handleImageLoad_def handleImageError_def
  board_onChange_def interval_fired_def timeout_fired_def resume_def
  catalog_settled_def loadEvents_settled_def loadProfiling_settled_def
  loadSavedFrames_settled_def

lemma list_ex_remove1_other:
  "\<not> P k \<Longrightarrow> list_ex P (remove1 k xs) = list_ex P xs"
  by (induction xs) auto

lemma list_ex_remove1:
  "list_ex P (remove1 k xs) \<Longrightarrow> list_ex P xs"
  by (induction xs) (auto split: if_splits)

subsection \<open>The profiling poller\<close>

lemma commit_loadProfiling_settled:
  "selectedBoardId t' = selectedBoardId t \<Longrightarrow> jobId t' = jobId t \<Longrightarrow>
   countdown t' = countdown t \<Longrightarrow>
   commit t (loadProfiling_settled j f t') = loadProfiling_settled j f t'"
  by (intro commit_same) (simp_all add: loadProfiling_settled_def split: sum.splits option.splits)

lemma profiling_tick_eq:
  assumes "map_of (intervals s) i = Some (LoadProfiling (Some j))" and "j \<noteq> []"
  shows "profiling_tick i j f s =
     loadProfiling_settled j f
       (s\<lparr>network := network s @ [GET (BACKEND @ ''/profiling/'' @ j)],
          pending := remove1 (ProfilingK j) (pending s @ [ProfilingK j])\<rparr>)"
proof -
  have 1: "step (IntervalFires i) s =
      s\<lparr>network := network s @ [GET (BACKEND @ ''/profiling/'' @ j)],
        pending := pending s @ [ProfilingK j]\<rparr>"
    using assms
    by (simp add: step_def interval_fired_def loadProfiling_def truthy_def truthy_str_def
        await_def commit_same)
  show ?thesis
    unfolding profiling_tick_def 1
    by (simp add: step_def resume_def commit_loadProfiling_settled)
qed

lemma profiling_tick_intervals:
  "map_of (intervals s) i = Some (LoadProfiling (Some j)) \<Longrightarrow> j \<noteq> [] \<Longrightarrow>
   intervals (profiling_tick i j f s) = intervals s"
  by (simp add: profiling_tick_eq loadProfiling_settled_def split: sum.splits option.splits)

lemma profiling_tick_failed:
  "map_of (intervals s) i = Some (LoadProfiling (Some j)) \<Longrightarrow> j \<noteq> [] \<Longrightarrow>
   result (getProfiling j) f = Inl m \<Longrightarrow>
   profiling (profiling_tick i j f s) = profiling s"
  by (simp add: profiling_tick_eq loadProfiling_settled_def)

lemma profiling_tick_succeeded:
  "map_of (intervals s) i = Some (LoadProfiling (Some j)) \<Longrightarrow> j \<noteq> [] \<Longrightarrow>
   result (getProfiling j) f = Inr (Some d) \<Longrightarrow>
   profiling (profiling_tick i j f s) = Some d"
  by (simp add: profiling_tick_eq loadProfiling_settled_def)

subsection \<open>Job controls in flight\<close>

text \<open>No effect awaits a job control or removes a continuation.\<close>

lemma effects_op_pending [simp]:
  "op_pending (catalog_effect s) = op_pending s"
  "op_pending (events_cleanup s) = op_pending s"
  "op_pending (events_effect s) = op_pending s"
  "op_pending (profiling_cleanup s) = op_pending s"
  "op_pending (profiling_effect s) = op_pending s"
  "op_pending (savedFrames_cleanup s) = op_pending s"
  "op_pending (savedFrames_effect s) = op_pending s"
  "op_pending (countdown_cleanup s) = op_pending s"
  "op_pending (countdown_effect s) = op_pending s"
  by (simp_all add: op_pending_def catalog_effect_def events_cleanup_def events_effect_def
      profiling_cleanup_def profiling_effect_def savedFrames_cleanup_def savedFrames_effect_def
      countdown_cleanup_def countdown_effect_def Let_def prim_defs poll_defs)

lemma job_effects_op_pending [simp]:
  "op_pending (job_cleanups s) = op_pending s" "op_pending (job_effects s) = op_pending s"
  by (simp_all add: job_cleanups_def job_effects_def)

lemma commit_op_pending [simp]: "op_pending (commit p s) = op_pending s"
  by (simp add: commit_def Let_def)

lemma commit_settle_pending [simp]: "settle_pending (commit p s) = settle_pending s"
  by (simp add: settle_pending_def)

lemma handle_busy_covered:
  "(busy s \<longrightarrow> op_pending s \<or> settle_pending s) \<Longrightarrow>
   busy (handle e s) \<longrightarrow> op_pending (handle e s) \<or> settle_pending (handle e s)"
  by (cases e)
     (auto simp: op_pending_def settle_pending_def handler_defs prim_defs poll_defs Let_def
        list_ex_remove1_other
        split: sum.splits option.splits interval_cb.splits timeout_cb.splits fetched.splits
          json.splits)

lemma handle_no_settle:
  "\<not> settle_pending s \<Longrightarrow> \<not> settle_pending (handle e s)"
  by (cases e)
     (auto simp: settle_pending_def handler_defs prim_defs poll_defs Let_def canStart_def
        split: sum.splits option.splits interval_cb.splits timeout_cb.splits fetched.splits
          json.splits
        dest: list_ex_remove1)

lemma run_busy_covered:
  "(busy s \<longrightarrow> op_pending s \<or> settle_pending s) \<Longrightarrow>
   busy (run es s) \<longrightarrow> op_pending (run es s) \<or> settle_pending (run es s)"
proof (induction es arbitrary: s)
  case Nil
  then show ?case by simp
next
  case (Cons e es)
  have "busy (step e s) \<longrightarrow> op_pending (step e s) \<or> settle_pending (step e s)"
    using handle_busy_covered [OF Cons.prems, of e] by (simp add: step_def)
  then show ?case
    using Cons.IH by simp
qed

lemma run_no_settle:
  "\<not> settle_pending s \<Longrightarrow> \<not> settle_pending (run es s)"
proof (induction es arbitrary: s)
  case Nil
  then show ?case by simp
next
  case (Cons e es)
  have "\<not> settle_pending (step e s)"
    using handle_no_settle [OF Cons.prems, of e] by (simp add: step_def)
  then show ?case
    using Cons.IH by simp
qed

lemma init_quiet: "\<not> busy init" "\<not> settle_pending init" "\<not> op_pending init"
  by (simp_all add: init_def settle_pending_def op_pending_def)

lemma countdown_effect_requests [simp]:
  "network (countdown_cleanup s) = network s" "pending (countdown_cleanup s) = pending s"
  "network (countdown_effect s) = network s" "pending (countdown_effect s) = pending s"
  by (simp_all add: countdown_cleanup_def countdown_effect_def prim_defs)

lemma commit_requests_same:
  "selectedBoardId s = selectedBoardId p \<Longrightarrow> jobId s = jobId p \<Longrightarrow>
   network (commit p s) = network s \<and> pending (commit p s) = pending s"
  by (simp add: commit_def Let_def)

lemma onStart_no_delay:
  "canStart s \<Longrightarrow>
   onStart s =
     await [POST_json (BACKEND @ ''/jobs/start'')
              [(''board_id'', selectedBoardId s), (''camera'', selectedCameraId s),
               (''model'', selectedModelId s)]]
       (StartK (selectedBoardId s) (selectedCameraId s) (selectedModelId s))
       (s\<lparr>busy := True, imageLoaded := False, streamError := None, countdown := 8,
          isPaused := False\<rparr>)"
  by (simp add: onStart_def canStart_def)

subsection \<open>The pollers and their refs\<close>

lemma handle_intervals:
  "intervals (handle e s) = intervals s"
  "eventsIntervalRef (handle e s) = eventsIntervalRef s"
  "profilingIntervalRef (handle e s) = profilingIntervalRef s"
  "savedFramesIntervalRef (handle e s) = savedFramesIntervalRef s"
  by (cases e;
      simp add: handler_defs prim_defs poll_defs Let_def
        split: sum.splits option.splits interval_cb.splits timeout_cb.splits fetched.splits
          json.splits)+

lemma poller_ref_handle [simp]: "poller_ref (handle e s) cb = poller_ref s cb"
  by (cases cb) (simp_all add: handle_intervals)

lemma tracked_handle [simp]: "tracked (handle e s) = tracked s"
  by (simp add: tracked_def handle_intervals)

lemma pollers_handle [simp]: "pollers (handle e s) = pollers s"
  by (simp add: pollers_def handle_intervals)

lemma no_pollers_tracked: "pollers s = [] \<Longrightarrow> tracked s"
  by (auto simp: pollers_def tracked_def filter_empty_conv list_all_iff)

lemma no_pollers_fires:
  "pollers s = [] \<Longrightarrow> map_of (intervals s) i = Some cb \<Longrightarrow> cb = CountdownTick"
  by (cases cb) (auto simp: pollers_def filter_empty_conv dest!: map_of_SomeD)

lemma poller_ref_side_effects [simp]:
  "poller_ref (clearInterval r s) cb = poller_ref s cb"
  "poller_ref (catalog_effect s) cb = poller_ref s cb"
  "poller_ref (countdown_cleanup s) cb = poller_ref s cb"
  "poller_ref (countdown_effect s) cb = poller_ref s cb"
  by (cases cb; simp add: catalog_effect_def countdown_cleanup_def countdown_effect_def
      prim_defs)+

lemma intervals_side_effects:
  "intervals (catalog_effect s) = intervals s"
  "intervals (countdown_cleanup s) =
     filter (\<lambda>e. Some (fst e) \<noteq> countdownTimer s) (intervals s)"
  "intervals (countdown_effect s) =
     intervals s @ (if countdown s \<le> 0 then [] else [(nextTimer s, CountdownTick)])"
  by (simp_all add: catalog_effect_def countdown_cleanup_def countdown_effect_def prim_defs)

lemma tracked_side_effects:
  "tracked s \<Longrightarrow> tracked (countdown_cleanup s)"
  "tracked s \<Longrightarrow> tracked (catalog_effect s)"
  "tracked s \<Longrightarrow> tracked (countdown_effect s)"
  by (simp_all add: tracked_def list_all_iff intervals_side_effects)

lemma job_cleanups_pollers:
  assumes "tracked s"
  shows "pollers (job_cleanups s) = []"
proof -
  have "\<not> (Some (fst e) \<noteq> eventsIntervalRef s \<and> Some (fst e) \<noteq> profilingIntervalRef s
      \<and> Some (fst e) \<noteq> savedFramesIntervalRef s)"
    if "e \<in> set (intervals s)" "is_poller (snd e)" for e
  proof -
    have "poller_ref s (snd e) = Some (fst e)"
      using assms that by (simp add: tracked_def list_all_iff)
    then show ?thesis
      by (cases "snd e") auto
  qed
  then show ?thesis
    by (auto simp: pollers_def job_cleanups_def events_cleanup_def profiling_cleanup_def
        savedFrames_cleanup_def clearInterval_eq filter_empty_conv)
qed

lemma side_effects_pollers [simp]:
  "pollers (catalog_effect s) = pollers s"
  "pollers (countdown_effect s) = pollers s"
  by (simp_all add: pollers_def catalog_effect_def countdown_effect_def prim_defs)

lemma countdown_cleanup_pollers:
  "pollers s = [] \<Longrightarrow> pollers (countdown_cleanup s) = []"
  by (auto simp: pollers_def countdown_cleanup_def clearInterval_eq filter_empty_conv)

lemma job_effects_idle:
  "\<not> truthy (jobId s) \<Longrightarrow> pollers s = [] \<Longrightarrow> pollers (job_effects s) = []"
  by (auto simp: pollers_def job_effects_def events_effect_def profiling_effect_def
      savedFrames_effect_def clearInterval_eq filter_empty_conv)

lemma job_effects_active:
  assumes "truthy (jobId s)"
  shows "intervals (job_effects s) =
      intervals s @ [(nextTimer s, LoadEvents), (Suc (nextTimer s), LoadProfiling (jobId s)),
                     (Suc (Suc (nextTimer s)), LoadSavedFrames)]"
    and "eventsIntervalRef (job_effects s) = Some (nextTimer s)"
    and "profilingIntervalRef (job_effects s) = Some (Suc (nextTimer s))"
    and "savedFramesIntervalRef (job_effects s) = Some (Suc (Suc (nextTimer s)))"
  using assms
  by (simp_all add: job_effects_def events_effect_def profiling_effect_def
      savedFrames_effect_def Let_def prim_defs poll_defs)

lemma job_effects_tracked: "pollers s = [] \<Longrightarrow> tracked (job_effects s)"
proof (cases "truthy (jobId s)")
  case True
  assume "pollers s = []"
  then have "\<forall>e \<in> set (intervals s). \<not> is_poller (snd e)"
    by (auto simp: pollers_def filter_empty_conv)
  then show ?thesis
    by (auto simp: tracked_def job_effects_active [OF True] list_all_iff)
next
  case False
  assume "pollers s = []"
  then show ?thesis
    using False by (intro no_pollers_tracked job_effects_idle)
qed

text \<open>
  The invariant of the pollers: each one alive is named by its ref, and none is alive
  while there is no job. A commit keeps it; \<open>s\<close> is the state the handler left, with the
  timers of \<open>p\<close>.
\<close>

lemma commit_pollers:
  assumes tr: "tracked s" and idle: "\<not> truthy (jobId p) \<longrightarrow> pollers s = []"
  shows "tracked (commit p s) \<and> (\<not> truthy (jobId (commit p s)) \<longrightarrow> pollers (commit p s) = [])"
proof (cases "jobId s = jobId p")
  case True
  define s2 where "s2 = (if countdown s \<noteq> countdown p \<and> 0 < countdown p
    then countdown_cleanup s else s)"
  define s3 where "s3 = (if selectedBoardId s \<noteq> selectedBoardId p then catalog_effect s2 else s2)"
  have c: "commit p s = (if countdown s \<noteq> countdown p then countdown_effect s3 else s3)"
    using True by (simp add: commit_def Let_def s2_def s3_def)
  have "\<not> truthy (jobId s) \<longrightarrow> pollers s = []"
    using idle True by simp
  then have "\<not> truthy (jobId s) \<longrightarrow> pollers (commit p s) = []"
    by (simp add: c s3_def s2_def countdown_cleanup_pollers)
  moreover have "tracked s2"
    using tr by (simp add: s2_def tracked_side_effects)
  then have "tracked (commit p s)"
    by (simp add: c s3_def tracked_side_effects)
  ultimately show ?thesis
    by simp
next
  case False
  define s1 where "s1 = (if truthy (jobId p) then job_cleanups s else s)"
  define s2 where "s2 = (if countdown s \<noteq> countdown p \<and> 0 < countdown p
    then countdown_cleanup s1 else s1)"
  define s3 where "s3 = (if selectedBoardId s \<noteq> selectedBoardId p then catalog_effect s2 else s2)"
  have c: "commit p s =
      (if countdown s \<noteq> countdown p then countdown_effect (job_effects s3) else job_effects s3)"
    using False by (simp add: commit_def Let_def s1_def s2_def s3_def)
  have "pollers s1 = []"
    using tr idle by (simp add: s1_def job_cleanups_pollers)
  then have 3: "pollers s3 = []"
    by (simp add: s3_def s2_def countdown_cleanup_pollers)
  have j: "jobId s3 = jobId s"
    by (simp add: s3_def s2_def s1_def)
  have "tracked (job_effects s3)"
    using 3 by (rule job_effects_tracked)
  then have "tracked (commit p s)"
    by (simp add: c tracked_side_effects)
  moreover have "\<not> truthy (jobId s) \<longrightarrow> pollers (commit p s) = []"
    using 3 j by (simp add: c job_effects_idle)
  ultimately show ?thesis
    by simp
qed

lemma step_pollers:
  assumes "tracked s" and "\<not> truthy (jobId s) \<longrightarrow> pollers s = []"
  shows "tracked (step e s) \<and> (\<not> truthy (jobId (step e s)) \<longrightarrow> pollers (step e s) = [])"
  unfolding step_def using assms by (intro commit_pollers) simp_all

lemma run_pollers:
  "tracked s \<Longrightarrow> (\<not> truthy (jobId s) \<longrightarrow> pollers s = []) \<Longrightarrow>
   tracked (run es s) \<and> (\<not> truthy (jobId (run es s)) \<longrightarrow> pollers (run es s) = [])"
proof (induction es arbitrary: s)
  case Nil
  then show ?case by simp
next
  case (Cons e es)
  have "tracked (step e s) \<and> (\<not> truthy (jobId (step e s)) \<longrightarrow> pollers (step e s) = [])"
    using Cons.prems by (rule step_pollers)
  then show ?case
    using Cons.IH [of "step e s"] by simp
qed

lemma init_pollers: "tracked init" "pollers init = []"
  by (simp_all add: init_def tracked_def pollers_def)

subsection \<open>While no job is held\<close>

lemma not_poller_request [simp]:
  "\<not> is_poller_request (POST_json u obj)"
  "\<not> is_poller_request (POST u)"
  "\<not> is_poller_request (GET (BACKEND @ ''/cameras?board_id='' @ b))"
  "\<not> is_poller_request (GET (BACKEND @ ''/models?board_id='' @ b))"
  by (simp_all add: is_poller_request_def POST_json_def POST_def GET_def)

lemma poller_requests_effects [simp]:
  "poller_requests (catalog_effect s) = poller_requests s"
  "poller_requests (countdown_cleanup s) = poller_requests s"
  "poller_requests (countdown_effect s) = poller_requests s"
  "poller_requests (job_cleanups s) = poller_requests s"
  by (simp_all add: poller_requests_def catalog_effect_def job_cleanups_def events_cleanup_def
      profiling_cleanup_def savedFrames_cleanup_def countdown_cleanup_def countdown_effect_def
      prim_defs is_poller_request_def GET_def)

lemma job_effects_idle_requests:
  "\<not> truthy (jobId s) \<Longrightarrow> poller_requests (job_effects s) = poller_requests s"
  by (simp add: poller_requests_def job_effects_def events_effect_def profiling_effect_def
      savedFrames_effect_def prim_defs)

lemma slices_effects [simp]:
  "profiling (catalog_effect s) = profiling s" "savedFrames (catalog_effect s) = savedFrames s"
  "profiling (countdown_cleanup s) = profiling s" "savedFrames (countdown_cleanup s) = savedFrames s"
  "profiling (countdown_effect s) = profiling s" "savedFrames (countdown_effect s) = savedFrames s"
  "profiling (job_cleanups s) = profiling s" "savedFrames (job_cleanups s) = savedFrames s"
  "profiling (job_effects s) = (if truthy (jobId s) then profiling s else None)"
  "savedFrames (job_effects s) = (if truthy (jobId s) then savedFrames s else [])"
  by (simp_all add: catalog_effect_def countdown_cleanup_def countdown_effect_def
      job_cleanups_def events_cleanup_def profiling_cleanup_def savedFrames_cleanup_def
      job_effects_def events_effect_def profiling_effect_def savedFrames_effect_def
      Let_def prim_defs poll_defs)

lemma commit_slices_idle:
  "\<not> truthy (jobId s) \<Longrightarrow> profiling s = None \<Longrightarrow> savedFrames s = [] \<Longrightarrow>
   profiling (commit p s) = None \<and> savedFrames (commit p s) = []"
  by (simp add: commit_def Let_def)

lemma handle_quiet:
  assumes "\<not> truthy (jobId s)" and "pollers s = []" and "\<not> starts_job e"
  shows "\<not> truthy (jobId (handle e s)) \<and> poller_requests (handle e s) = poller_requests s"
proof (cases e)
  case (IntervalFires i)
  show ?thesis
  proof (cases "map_of (intervals s) i")
    case None
    then show ?thesis using assms IntervalFires by simp
  next
    case (Some cb)
    then have "cb = CountdownTick"
      using assms(2) by (simp add: no_pollers_fires)
    then show ?thesis
      using assms Some IntervalFires by (simp add: interval_fired_def poller_requests_def)
  qed
qed (use assms in \<open>auto simp: poller_requests_def handler_defs prim_defs poll_defs Let_def
        canStop_def canPause_def truthy_def
        split: sum.splits option.splits timeout_cb.splits fetched.splits json.splits\<close>)

lemma commit_quiet:
  assumes "\<not> truthy (jobId s)" and "\<not> truthy (jobId p)" and "pollers s = []"
  shows "pollers (commit p s) = [] \<and> poller_requests (commit p s) = poller_requests s"
proof -
  define s2 where "s2 = (if countdown s \<noteq> countdown p \<and> 0 < countdown p
    then countdown_cleanup s else s)"
  define s3 where "s3 = (if selectedBoardId s \<noteq> selectedBoardId p then catalog_effect s2 else s2)"
  define s4 where "s4 = (if jobId s \<noteq> jobId p then job_effects s3 else s3)"
  have c: "commit p s = (if countdown s \<noteq> countdown p then countdown_effect s4 else s4)"
    using assms(2) by (simp add: commit_def Let_def s2_def s3_def s4_def)
  have j: "\<not> truthy (jobId s3)"
    using assms(1) by (simp add: s3_def s2_def)
  have "pollers s3 = []"
    using assms(3) by (simp add: s3_def s2_def countdown_cleanup_pollers)
  then have "pollers s4 = []"
    using j by (simp add: s4_def job_effects_idle)
  moreover have "poller_requests s3 = poller_requests s"
    by (simp add: s3_def s2_def)
  then have "poller_requests s4 = poller_requests s"
    using j by (simp add: s4_def job_effects_idle_requests)
  ultimately show ?thesis
    by (simp add: c)
qed

lemma run_quiet:
  "\<not> truthy (jobId s) \<Longrightarrow> pollers s = [] \<Longrightarrow> list_all (\<lambda>e. \<not> starts_job e) es \<Longrightarrow>
   \<not> truthy (jobId (run es s)) \<and> pollers (run es s) = []
   \<and> poller_requests (run es s) = poller_requests s"
proof (induction es arbitrary: s)
  case Nil
  then show ?case by simp
next
  case (Cons e es)
  have h: "\<not> truthy (jobId (handle e s)) \<and> poller_requests (handle e s) = poller_requests s"
    using Cons.prems by (intro handle_quiet) simp_all
  have "pollers (step e s) = [] \<and> poller_requests (step e s) = poller_requests (handle e s)"
    unfolding step_def using h Cons.prems by (intro commit_quiet) simp_all
  moreover have "\<not> truthy (jobId (step e s))"
    using h by (simp add: step_def)
  ultimately show ?case
    using Cons.IH [of "step e s"] Cons.prems h by simp
qed

lemma stop_settles_success:
  assumes "StopK j \<in> set (pending s)" and "result (stopJob j) f = Inr a"
  shows "jobId (handle (StopJobSettles j f) s) = None"
    and "events (handle (StopJobSettles j f) s) = []"
    and "profiling (handle (StopJobSettles j f) s) = None"
    and "savedFrames (handle (StopJobSettles j f) s) = []"
    and "streamUrl (handle (StopJobSettles j f) s) = []"
    and "countdown (handle (StopJobSettles j f) s) = 0"
  using assms by (simp_all add: onStop_settled_def resume_def)

subsection \<open>The catalog\<close>

lemma catalog_effect_lists:
  "cameras (catalog_effect s) = (if truthy_str (selectedBoardId s) then cameras s else [])"
  "models (catalog_effect s) = (if truthy_str (selectedBoardId s) then models s else [])"
  "loadingModels (catalog_effect s) = (truthy_str (selectedBoardId s) \<or> loadingModels s)"
  "pending (catalog_effect s) =
     pending s @ (if truthy_str (selectedBoardId s) then [CatalogK (selectedBoardId s)] else [])"
  by (simp_all add: catalog_effect_def prim_defs)

lemma other_effects_lists [simp]:
  "cameras (job_cleanups s) = cameras s" "models (job_cleanups s) = models s"
  "loadingModels (job_cleanups s) = loadingModels s"
  "cameras (job_effects s) = cameras s" "models (job_effects s) = models s"
  "loadingModels (job_effects s) = loadingModels s"
  "cameras (countdown_cleanup s) = cameras s" "models (countdown_cleanup s) = models s"
  "loadingModels (countdown_cleanup s) = loadingModels s"
  "cameras (countdown_effect s) = cameras s" "models (countdown_effect s) = models s"
  "loadingModels (countdown_effect s) = loadingModels s"
  by (simp_all add: job_cleanups_def events_cleanup_def profiling_cleanup_def
      savedFrames_cleanup_def job_effects_def events_effect_def profiling_effect_def
      savedFrames_effect_def countdown_cleanup_def countdown_effect_def Let_def prim_defs
      poll_defs)

lemma commit_loading: "loadingModels s \<Longrightarrow> loadingModels (commit p s)"
  by (simp add: commit_def Let_def catalog_effect_lists)

lemma handle_loading:
  "loadingModels s \<Longrightarrow> \<not> is_catalog_reply e \<Longrightarrow> loadingModels (handle e s)"
  by (cases e)
     (auto simp: handler_defs prim_defs poll_defs Let_def
        split: sum.splits option.splits interval_cb.splits timeout_cb.splits fetched.splits
          json.splits)

lemma run_loading:
  "loadingModels s \<Longrightarrow> list_all (\<lambda>e. \<not> is_catalog_reply e) es \<Longrightarrow> loadingModels (run es s)"
proof (induction es arbitrary: s)
  case Nil
  then show ?case by simp
next
  case (Cons e es)
  have "loadingModels (step e s)"
    unfolding step_def using Cons.prems by (intro commit_loading handle_loading) simp_all
  then show ?case
    using Cons.IH [of "step e s"] Cons.prems by simp
qed

lemma select_board:
  assumes "\<not> board_select_disabled s" and "v \<noteq> selectedBoardId s"
  shows "step (SelectBoard v) s = catalog_effect (board_onChange v s)"
  using assms by (simp add: step_def commit_def Let_def board_onChange_def)

lemma catalog_settles:
  assumes "CatalogK b \<in> set (pending s)"
  shows "step (CatalogSettles b fc fm) s = catalog_settled b fc fm (resume (CatalogK b) s)"
  using assms
  by (simp add: step_def catalog_settled_def resume_def commit_same split: sum.splits)

subsection \<open>One job control at a time\<close>

lemma effects_ops [simp]:
  "ops (catalog_effect s) = ops s"
  "ops (job_cleanups s) = ops s"
  "ops (job_effects s) = ops s"
  "ops (countdown_cleanup s) = ops s"
  "ops (countdown_effect s) = ops s"
  by (simp_all add: ops_def catalog_effect_def job_cleanups_def events_cleanup_def
      profiling_cleanup_def savedFrames_cleanup_def job_effects_def events_effect_def
      profiling_effect_def savedFrames_effect_def countdown_cleanup_def countdown_effect_def
      Let_def prim_defs poll_defs)

lemma commit_ops [simp]: "ops (commit p s) = ops s"
  by (simp add: commit_def Let_def)

lemma commit_one_op [simp]: "one_op (commit p s) = one_op s"
  by (simp add: one_op_def cong: list.case_cong)

lemma ops_remove1_op:
  assumes "ops s = [k']" and "k \<in> set (pending s)" and "is_op k"
  shows "filter is_op (remove1 k (pending s)) = []"
proof -
  have "k \<in> set (ops s)"
    using assms(2,3) by (simp add: ops_def)
  then have "k = k'"
    using assms(1) by simp
  then show ?thesis
    using assms(1) by (simp add: filter_remove1 ops_def)
qed

lemma ops_remove1_other:
  "\<not> is_op k \<Longrightarrow> filter is_op (remove1 k xs) = filter is_op xs"
  by (induction xs) auto

lemma ops_empty_no_op:
  "ops s = [] \<Longrightarrow> is_op k \<Longrightarrow> k \<notin> set (pending s)"
  by (auto simp: ops_def filter_empty_conv)

lemma one_op_cases:
  "one_op s \<Longrightarrow>
   (\<not> busy s \<and> ops s = []) \<or> (busy s \<and> (\<exists>k. ops s = [k] \<and> (is_start k \<longrightarrow> \<not> truthy (jobId s))))"
  by (auto simp: one_op_def split: list.splits)

lemma handle_one_op:
  assumes "one_op s"
  shows "one_op (handle e s)"
proof -
  have ns: "\<not> settle_pending s"
    using assms by (simp add: one_op_def)
  then have ns': "\<not> settle_pending (handle e s)"
    by (rule handle_no_settle)
  from one_op_cases [OF assms] show ?thesis
  proof
    assume idle: "\<not> busy s \<and> ops s = []"
    then have none: "\<And>k. is_op k \<Longrightarrow> k \<notin> set (pending s)"
      by (simp add: ops_empty_no_op)
    have "case ops (handle e s) of
         [] \<Rightarrow> \<not> busy (handle e s)
       | [k] \<Rightarrow> busy (handle e s) \<and> (is_start k \<longrightarrow> \<not> truthy (jobId (handle e s)))
       | k # k' # ks \<Rightarrow> False"
      using idle ns none [of "StartK _ _ _"] none [of "StopK _"] none [of "PauseK _ _"]
      by (cases e)
         (auto simp: ops_def settle_pending_def list_ex_iff handler_defs prim_defs poll_defs Let_def
            canStart_def canStop_def canPause_def ops_remove1_other
            split: sum.splits option.splits interval_cb.splits timeout_cb.splits
              fetched.splits json.splits)
    then show ?thesis
      using ns' by (simp add: one_op_def)
  next
    assume "busy s \<and> (\<exists>k. ops s = [k] \<and> (is_start k \<longrightarrow> \<not> truthy (jobId s)))"
    then obtain k where b: "busy s" and k: "ops s = [k]"
      and st: "is_start k \<longrightarrow> \<not> truthy (jobId s)"
      by blast
    have rm: "\<And>k'. k' \<in> set (pending s) \<Longrightarrow> is_op k' \<Longrightarrow>
        filter is_op (remove1 k' (pending s)) = []"
      using k by (rule ops_remove1_op)
    have k': "filter is_op (pending s) = [k]"
      using k by (simp add: ops_def)
    have "case ops (handle e s) of
         [] \<Rightarrow> \<not> busy (handle e s)
       | [k] \<Rightarrow> busy (handle e s) \<and> (is_start k \<longrightarrow> \<not> truthy (jobId (handle e s)))
       | k # k' # ks \<Rightarrow> False"
      using b k' st ns rm [of "StartK _ _ _"] rm [of "StopK _"] rm [of "PauseK _ _"]
      by (cases e)
         (auto simp: ops_def settle_pending_def list_ex_iff handler_defs prim_defs poll_defs Let_def
            canStart_def canStop_def canPause_def board_select_disabled_def
            camera_select_disabled_def model_select_disabled_def ops_remove1_other
            split: sum.splits option.splits interval_cb.splits timeout_cb.splits
              fetched.splits json.splits)
    then show ?thesis
      using ns' by (simp add: one_op_def)
  qed
qed

lemma run_one_op: "one_op s \<Longrightarrow> one_op (run es s)"
proof (induction es arbitrary: s)
  case Nil
  then show ?case by simp
next
  case (Cons e es)
  have "one_op (step e s)"
    using handle_one_op [OF Cons.prems, of e] by (simp add: step_def)
  then show ?case
    using Cons.IH by simp
qed

lemma init_one_op: "one_op init"
  by (simp add: one_op_def init_def ops_def settle_pending_def)

lemma one_op_starts:
  assumes "one_op s"
  shows "length (filter is_start (pending s)) \<le> 1"
    and "truthy (jobId s) \<Longrightarrow> filter is_start (pending s) = []"
proof -
  have f: "filter is_start (pending s) = filter is_start (ops s)"
    by (auto simp: ops_def intro!: filter_cong elim: is_start.elims)
  show "length (filter is_start (pending s)) \<le> 1"
    using one_op_cases [OF assms] by (auto simp: f)
  show "filter is_start (pending s) = []" if "truthy (jobId s)"
    using one_op_cases [OF assms] that by (auto simp: f)
qed

section \<open>Properties of the job lifecycle\<close>

text \<open>
  The start handler tests the job id for truthiness, and an empty string is falsy: after
  a start answered with an empty job id the component holds a job id that is not null,
  and a further click on Start still issues a start request.
\<close>

theorem start_with_empty_job_id_counterexample:
  "jobId (run running_unnamed init) = Some []
   \<and> jobId (run running_unnamed init) \<noteq> None
   \<and> onStart (run running_unnamed init) \<noteq> run running_unnamed init
   \<and> network (step ClickStart (run running_unnamed init)) =
       network (run running_unnamed init) @
       [POST_json (BACKEND @ ''/jobs/start'')
          [(''board_id'', ''b1''), (''camera'', ''c1''), (''model'', ''m1'')]]"
  by code_simp

text \<open>
  C1, amended. At most one job is active at any time: while a job is active (the job id
  is neither null nor empty), a start invocation is rejected before any backend request
  is issued: the start handler, and the Start button, leave the whole state as it is,
  the log of requests included. And after every sequence of events at most one start
  request is awaited, and none while a job is active.
\<close>

theorem start_rejected_while_job_held:
  "(truthy (jobId s) \<longrightarrow> onStart s = s \<and> step ClickStart s = s)
   \<and> length (filter is_start (pending (run es init))) \<le> 1
   \<and> (truthy (jobId (run es init)) \<longrightarrow> filter is_start (pending (run es init)) = [])"
proof -
  have "one_op (run es init)"
    by (rule run_one_op) (rule init_one_op)
  then show ?thesis
    using one_op_starts [of "run es init"]
    by (simp add: onStart_def canStart_def step_def)
qed

text \<open>In the session of the specification, once job j42 runs.\<close>

theorem start_rejected_while_job_held_witness:
  "truthy (jobId (run running init))
   \<and> onStart (run running init) = run running init
   \<and> step ClickStart (run running init) = run running init
   \<and> filter is_start (pending (run running init)) = []"
proof -
  have "truthy (jobId (run running init))"
    by code_simp
  then show ?thesis
    using start_rejected_while_job_held [of "run running init" running]
    by blast
qed

text \<open>
  C2. If the stop request fails (the stop-job call throws), the stop handler leaves the
  job state as it was: job id, stream address, events, profiling snapshot, saved frames,
  pause flag and stream-loaded flag are those from before the click, the interval timers
  (the pollers among them) are the same, and the busy flag is down again.
\<close>

theorem failed_stop_keeps_job:
  assumes "canStop s" and "jobId s = Some j" and "result (stopJob j) f = Inl m"
  shows "jobId (step (StopJobSettles j f) (step ClickStop s)) = jobId s
    \<and> streamUrl (step (StopJobSettles j f) (step ClickStop s)) = streamUrl s
    \<and> events (step (StopJobSettles j f) (step ClickStop s)) = events s
    \<and> profiling (step (StopJobSettles j f) (step ClickStop s)) = profiling s
    \<and> savedFrames (step (StopJobSettles j f) (step ClickStop s)) = savedFrames s
    \<and> isPaused (step (StopJobSettles j f) (step ClickStop s)) = isPaused s
    \<and> imageLoaded (step (StopJobSettles j f) (step ClickStop s)) = imageLoaded s
    \<and> intervals (step (StopJobSettles j f) (step ClickStop s)) = intervals s
    \<and> \<not> busy (step (StopJobSettles j f) (step ClickStop s))"
proof -
  let ?s1 = "s\<lparr>busy := True, network := network s @ [POST (BACKEND @ ''/jobs/stop'')],
       pending := pending s @ [StopK j]\<rparr>"
  have 1: "step ClickStop s = ?s1"
    using assms by (simp add: click_stop)
  have 2: "step (StopJobSettles j f) ?s1 =
     ?s1\<lparr>pending := remove1 (StopK j) (pending ?s1),
       alerts := alerts ?s1 @ [''Stop failed: '' @ m], busy := False\<rparr>"
    using assms(3) by (intro stop_settles_failure) simp_all
  show ?thesis
    unfolding 1 2 by simp
qed

text \<open>Job j42 runs and the backend refuses to stop it.\<close>

theorem failed_stop_keeps_job_witness:
  "canStop (run running init)
   \<and> jobId (step (StopJobSettles ''j42'' (error_reply ''no such job'' ()))
              (step ClickStop (run running init))) = Some ''j42''
   \<and> intervals (step (StopJobSettles ''j42'' (error_reply ''no such job'' ()))
                  (step ClickStop (run running init))) = intervals (run running init)
   \<and> \<not> busy (step (StopJobSettles ''j42'' (error_reply ''no such job'' ()))
                (step ClickStop (run running init)))"
proof -
  have 1: "canStop (run running init)"
    by code_simp
  have 2: "jobId (run running init) = Some ''j42''"
    by code_simp
  have 3: "result (stopJob ''j42'') (error_reply ''no such job'' ()) =
      Inl ''Failed to stop job: no such job''"
    by code_simp
  show ?thesis
    using 1 2 failed_stop_keeps_job [OF 1 2 3] by simp
qed

text \<open>
  C3. When a stop invocation succeeds, every poller-owned state slice is cleared (no
  events, no profiling snapshot, no saved frames) and all three pollers are cancelled:
  no poller is scheduled after the stop, and whatever happens next, as long as no new
  job is started, none is scheduled again and no poller request is issued.
\<close>

theorem successful_stop_clears_pollers:
  assumes "StopK j \<in> set (pending (run es init))"
    and "result (stopJob j) f = Inr ack"
    and "list_all (\<lambda>e. \<not> starts_job e) later"
  shows "events (step (StopJobSettles j f) (run es init)) = []
    \<and> profiling (step (StopJobSettles j f) (run es init)) = None
    \<and> savedFrames (step (StopJobSettles j f) (run es init)) = []
    \<and> pollers (step (StopJobSettles j f) (run es init)) = []
    \<and> pollers (run later (step (StopJobSettles j f) (run es init))) = []
    \<and> poller_requests (run later (step (StopJobSettles j f) (run es init))) =
        poller_requests (step (StopJobSettles j f) (run es init))"
proof -
  let ?s = "run es init"
  let ?s' = "step (StopJobSettles j f) ?s"
  note h = stop_settles_success [OF assms(1,2)]
  have inv: "tracked ?s \<and> (\<not> truthy (jobId ?s) \<longrightarrow> pollers ?s = [])"
    by (rule run_pollers) (simp_all add: init_pollers)
  then have "tracked ?s' \<and> (\<not> truthy (jobId ?s') \<longrightarrow> pollers ?s' = [])"
    by (intro step_pollers) simp_all
  moreover have j: "\<not> truthy (jobId ?s')"
    by (simp add: step_def h truthy_def del: handle.simps)
  ultimately have p: "pollers ?s' = []"
    by simp
  have "profiling ?s' = None \<and> savedFrames ?s' = []"
    unfolding step_def by (rule commit_slices_idle) (simp_all add: h truthy_def del: handle.simps)
  moreover have "events ?s' = []"
    by (simp add: step_def h del: handle.simps)
  ultimately show ?thesis
    using p run_quiet [OF j p assms(3)] by simp
qed

text \<open>
  Job j42 is stopped; afterwards the ids of the three former pollers fire, an events
  request still in flight is answered and the operator selects another board.
\<close>

theorem successful_stop_clears_pollers_witness:
  "StopK ''j42'' \<in> set (pending (run stopping init))
   \<and> pollers (run stopping init) \<noteq> []
   \<and> pollers (step (StopJobSettles ''j42'' (ok_reply ())) (run stopping init)) = []
   \<and> poller_requests
        (run [IntervalFires 2, IntervalFires 3, IntervalFires 4, EventsSettle (ok_reply [7]),
              SelectBoard ''b2'']
           (step (StopJobSettles ''j42'' (ok_reply ())) (run stopping init))) =
       poller_requests (step (StopJobSettles ''j42'' (ok_reply ())) (run stopping init))"
proof -
  have 1: "StopK ''j42'' \<in> set (pending (run stopping init))"
    by code_simp
  have 2: "result (stopJob ''j42'') (ok_reply ()) = Inr ()"
    by code_simp
  have 3: "list_all (\<lambda>e. \<not> starts_job e)
      [IntervalFires 2, IntervalFires 3, IntervalFires 4, EventsSettle (ok_reply [7 :: nat]),
       SelectBoard ''b2'' :: (nat, nat, nat) event]"
    by simp
  have 4: "pollers (run stopping init) \<noteq> []"
    by code_simp
  show ?thesis
    using 1 4 successful_stop_clears_pollers [OF 1 2 3] by simp
qed

text \<open>
  C4. The specification asks that every one-shot timer of a flow is cancelled when its
  job is stopped before it fires, so that after a successful stop the pending warm-up
  timer never assigns a stream address. On the session of the specification the
  component does otherwise: the stop of job j42 succeeds
  while the warm-up timer is pending; the stop clears the stream address and cancels
  every interval, the countdown included, but the warm-up timer stays, and when it fires
  the stream address of j42 is assigned although no job is held.
\<close>

theorem warm_up_timer_outlives_stop:
  "WarmUp (stream_url j42) \<in> set (timeouts (run running init))
   \<and> jobId (run stopped init) = None
   \<and> streamUrl (run stopped init) = []
   \<and> intervals (run stopped init) = []
   \<and> WarmUp (stream_url j42) \<in> set (timeouts (run stopped init))
   \<and> jobId (run late_warm_up init) = None
   \<and> streamUrl (run late_warm_up init) = stream_url j42"
  by code_simp

text \<open>
  Board b1 is selected and its lists are loaded; the operator selects board b2. The
  lists of b1 stay while the fetches for b2 are pending, and the camera selector is
  enabled.
\<close>

theorem board_change_counterexample:
  "selectedBoardId (run selecting init) = ''b1''
   \<and> selectedBoardId (run reselecting init) = ''b2''
   \<and> cameras (run reselecting init) = [c1]
   \<and> models (run reselecting init) = [m1]
   \<and> CatalogK ''b2'' \<in> set (pending (run reselecting init))
   \<and> \<not> camera_select_disabled (run reselecting init)"
  by code_simp

text \<open>
  C5, amended. When the selected board changes, the camera selection and the model
  selection are cleared. The camera list and the model list are cleared when the new
  selection is the empty one; when it is a board, they are kept, the two fetches for the
  board are awaited, and the model selector stays disabled whatever happens until a
  catalog answer arrives. When both fetches of a catalog request have resolved, the two
  lists are replaced by the answers and the loading flag falls.
\<close>

theorem board_change_reloads_catalog:
  assumes "\<not> board_select_disabled s" and "v \<noteq> selectedBoardId s"
    and "list_all (\<lambda>e. \<not> is_catalog_reply e) es"
  shows "selectedBoardId (step (SelectBoard v) s) = v
    \<and> selectedCameraId (step (SelectBoard v) s) = []
    \<and> selectedModelId (step (SelectBoard v) s) = []
    \<and> (v = [] \<longrightarrow> cameras (step (SelectBoard v) s) = [] \<and> models (step (SelectBoard v) s) = [])
    \<and> (v \<noteq> [] \<longrightarrow>
          cameras (step (SelectBoard v) s) = cameras s
          \<and> models (step (SelectBoard v) s) = models s
          \<and> CatalogK v \<in> set (pending (step (SelectBoard v) s))
          \<and> model_select_disabled (run es (step (SelectBoard v) s)))
    \<and> (CatalogK b \<in> set (pending t) \<longrightarrow>
          result (getCameras b) fc = Inr c \<longrightarrow> result (getModels b) fm = Inr m \<longrightarrow>
          cameras (step (CatalogSettles b fc fm) t) = c
          \<and> models (step (CatalogSettles b fc fm) t) = m
          \<and> \<not> loadingModels (step (CatalogSettles b fc fm) t))"
proof -
  have 1: "step (SelectBoard v) s = catalog_effect (board_onChange v s)"
    using assms(1,2) by (rule select_board)
  have "loadingModels (run es (step (SelectBoard v) s))" if "v \<noteq> []"
    using that assms(3)
    by (intro run_loading) (simp_all add: 1 catalog_effect_lists board_onChange_def truthy_str_def)
  then have "v \<noteq> [] \<longrightarrow> model_select_disabled (run es (step (SelectBoard v) s))"
    by (simp add: model_select_disabled_def)
  moreover have "selectedBoardId (step (SelectBoard v) s) = v
    \<and> selectedCameraId (step (SelectBoard v) s) = []
    \<and> selectedModelId (step (SelectBoard v) s) = []
    \<and> (v = [] \<longrightarrow> cameras (step (SelectBoard v) s) = [] \<and> models (step (SelectBoard v) s) = [])
    \<and> (v \<noteq> [] \<longrightarrow>
          cameras (step (SelectBoard v) s) = cameras s
          \<and> models (step (SelectBoard v) s) = models s
          \<and> CatalogK v \<in> set (pending (step (SelectBoard v) s)))"
    unfolding 1 by (simp add: catalog_effect_lists board_onChange_def truthy_str_def)
  moreover have "cameras (step (CatalogSettles b fc fm) t) = c
          \<and> models (step (CatalogSettles b fc fm) t) = m
          \<and> \<not> loadingModels (step (CatalogSettles b fc fm) t)"
    if "CatalogK b \<in> set (pending t)" "result (getCameras b) fc = Inr c"
      "result (getModels b) fm = Inr m"
    using that by (simp add: catalog_settles catalog_settled_def resume_def)
  ultimately show ?thesis
    by blast
qed

text \<open>
  From board b1 to board b2, with a click on Start before the answer, and from board b1
  to no board; then the answer for b2, with no camera and one model.
\<close>

theorem board_change_reloads_catalog_witness:
  "\<not> board_select_disabled (run selecting init)
   \<and> ''b2'' \<noteq> selectedBoardId (run selecting init)
   \<and> cameras (step (SelectBoard ''b2'') (run selecting init)) = [c1]
   \<and> selectedCameraId (step (SelectBoard ''b2'') (run selecting init)) = []
   \<and> model_select_disabled (run [ClickStart] (step (SelectBoard ''b2'') (run selecting init)))
   \<and> cameras (step (SelectBoard []) (run selecting init)) = []
   \<and> models (step (SelectBoard []) (run selecting init)) = []
   \<and> CatalogK ''b2'' \<in> set (pending (run reselecting init))
   \<and> cameras (step (CatalogSettles ''b2'' (ok_reply []) (ok_reply [m1])) (run reselecting init)) = []
   \<and> models (step (CatalogSettles ''b2'' (ok_reply []) (ok_reply [m1])) (run reselecting init)) = [m1]"
proof -
  have 1: "\<not> board_select_disabled (run selecting init)"
    by code_simp
  have 2: "''b2'' \<noteq> selectedBoardId (run selecting init)"
    by code_simp
  have 3: "list_all (\<lambda>e. \<not> is_catalog_reply e) [ClickStart :: (nat, nat, nat) event]"
    by simp
  have 4: "CatalogK ''b2'' \<in> set (pending (run reselecting init))"
    by code_simp
  have 5: "result (getCameras ''b2'') (ok_reply ([] :: CameraItem list)) = Inr []"
    "result (getModels ''b2'') (ok_reply [m1]) = Inr [m1]"
    by code_simp+
  have 6: "cameras (run selecting init) = [c1]"
    by code_simp
  have 7: "[] \<noteq> selectedBoardId (run selecting init)"
    by code_simp
  show ?thesis
    using 1 2 4 5 6
      board_change_reloads_catalog [OF 1 2 3, of "''b2''" "run reselecting init"
        "ok_reply []" "[]" "ok_reply [m1]" "[m1]"]
      board_change_reloads_catalog [OF 1 7 3, of "''b2''" "run reselecting init"
        "ok_reply []" "[]" "ok_reply [m1]" "[m1]"]
    by simp
qed

section \<open>Properties of the stream monitor and the pollers\<close>

text \<open>
  C6. A render-failure signal handled while the warm-up countdown is greater than 0 never
  sets the error text: the handler, and the event as a whole, leave it as it was. A
  render-failure signal handled when the countdown is 0, a stream address is assigned and
  a job is active sets the error text.
\<close>

theorem image_error_respects_warm_up:
  "(0 < countdown s \<longrightarrow>
      streamError (handleImageError s) = streamError s \<and>
      streamError (step ImageError s) = streamError s) \<and>
   (countdown s = 0 \<and> truthy_str (streamUrl s) \<and> truthy (jobId s) \<longrightarrow>
      streamError (handleImageError s) = Some ''Connection error. Retrying...'')"
  by (simp add: handleImageError_def step_def)

text \<open>Job j42 right after its start, and after the countdown and the warm-up.\<close>

theorem image_error_respects_warm_up_witness:
  "0 < countdown (run running init)
   \<and> streamError (handleImageError (run running init)) = None
   \<and> countdown (run warmed_up init) = 0
   \<and> truthy_str (streamUrl (run warmed_up init))
   \<and> truthy (jobId (run warmed_up init))
   \<and> streamError (handleImageError (run warmed_up init)) = Some ''Connection error. Retrying...''"
proof -
  have 1: "0 < countdown (run running init)" "streamError (run running init) = None"
    by code_simp+
  have 2: "countdown (run warmed_up init) = 0" "truthy_str (streamUrl (run warmed_up init))"
    "truthy (jobId (run warmed_up init))"
    by code_simp+
  show ?thesis
    using 1 2 image_error_respects_warm_up [of "run running init"]
      image_error_respects_warm_up [of "run warmed_up init"]
    by simp
qed

text \<open>
  C7. For the profiling poller, a tick whose fetch fails leaves the profiling snapshot
  at the value of the last successful tick, and the next successful tick replaces it: in
  a sequence of 5 ticks where tick 2 succeeds, tick 3 fails and tick 4 succeeds, the
  snapshot after tick 3 is the value of tick 2 and the snapshot after tick 4 is the
  answer to tick 4.
\<close>

theorem profiling_failed_tick_keeps_snapshot:
  assumes live: "map_of (intervals s) i = Some (LoadProfiling (Some j))" "j \<noteq> []"
    and f2: "result (getProfiling j) f2 = Inr (Some d2)"
    and f3: "result (getProfiling j) f3 = Inl m"
    and f4: "result (getProfiling j) f4 = Inr (Some d4)"
  shows "profiling (profiling_tick i j f3 s) = profiling s
    \<and> profiling (profiling_tick i j f4 s) = Some d4
    \<and> profiling (profiling_ticks i j [f1, f2] s) = Some d2
    \<and> profiling (profiling_ticks i j [f1, f2, f3] s) = Some d2
    \<and> profiling (profiling_ticks i j [f1, f2, f3, f4] s) = Some d4
    \<and> take 3 (drop 1 (snapshots i j [f1, f2, f3, f4, f5] s)) = [Some d2, Some d2, Some d4]"
proof -
  let ?s1 = "profiling_tick i j f1 s"
  let ?s2 = "profiling_tick i j f2 ?s1"
  let ?s3 = "profiling_tick i j f3 ?s2"
  let ?s4 = "profiling_tick i j f4 ?s3"
  have i1: "map_of (intervals ?s1) i = Some (LoadProfiling (Some j))"
    using live by (simp add: profiling_tick_intervals)
  have i2: "map_of (intervals ?s2) i = Some (LoadProfiling (Some j))"
    using i1 live(2) by (simp add: profiling_tick_intervals)
  have i3: "map_of (intervals ?s3) i = Some (LoadProfiling (Some j))"
    using i2 live(2) by (simp add: profiling_tick_intervals)
  have p2: "profiling ?s2 = Some d2"
    using i1 live(2) f2 by (rule profiling_tick_succeeded)
  have p3: "profiling ?s3 = profiling ?s2"
    using i2 live(2) f3 by (rule profiling_tick_failed)
  have p4: "profiling ?s4 = Some d4"
    using i3 live(2) f4 by (rule profiling_tick_succeeded)
  have p0: "profiling (profiling_tick i j f3 s) = profiling s"
    using live f3 by (rule profiling_tick_failed)
  have p0': "profiling (profiling_tick i j f4 s) = Some d4"
    using live f4 by (rule profiling_tick_succeeded)
  show ?thesis
    using p0 p0' p2 p3 p4 by simp
qed

text \<open>Job j42 runs, its profiling poller has id 3; the third of five fetches fails.\<close>

theorem profiling_failed_tick_keeps_snapshot_witness:
  "map_of (intervals (run running init)) 3 = Some (LoadProfiling (Some ''j42''))
   \<and> profiling (profiling_ticks 3 ''j42''
        [ok_reply (Some 10), ok_reply (Some 20), Rejected ''Failed to fetch'']
        (run running init)) = Some 20
   \<and> profiling (profiling_ticks 3 ''j42''
        [ok_reply (Some 10), ok_reply (Some 20), Rejected ''Failed to fetch'', ok_reply (Some 40)]
        (run running init)) = Some 40
   \<and> take 3 (drop 1 (snapshots 3 ''j42''
        [ok_reply (Some 10), ok_reply (Some 20), Rejected ''Failed to fetch'', ok_reply (Some 40),
         ok_reply (Some 50)]
        (run running init))) = [Some 20, Some 20, Some 40]"
proof -
  have 1: "map_of (intervals (run running init)) 3 = Some (LoadProfiling (Some ''j42''))"
    by code_simp
  have 2: "''j42'' \<noteq> []"
    by simp
  have 3: "result (getProfiling ''j42'') (ok_reply (Some (20 :: nat))) = Inr (Some 20)"
    "result (getProfiling ''j42'') (Rejected ''Failed to fetch'' :: nat option fetched) =
       Inl ''Failed to fetch''"
    "result (getProfiling ''j42'') (ok_reply (Some (40 :: nat))) = Inr (Some 40)"
    by (simp_all add: getProfiling_def read_result_def ok_reply_def)
  show ?thesis
    using 1
      profiling_failed_tick_keeps_snapshot [OF 1 2 3, of "ok_reply (Some 10)" "ok_reply (Some 50)"]
    by simp
qed

section \<open>Properties of the busy flag and the settle delay\<close>

text \<open>
  C8. Every invocation of start, stop or pause/resume that raised the busy flag before
  issuing its request lowers it when it completes, whether the request succeeded or
  failed (the answer is arbitrary below); and no execution leaves the flag up for good: in
  every reachable state with the flag up, a job control is still awaited.
\<close>

theorem busy_always_cleared:
  "(StartK b c m \<in> set (pending s) \<longrightarrow> \<not> busy (step (StartJobSettles b c m f1) s))
   \<and> (StopK j \<in> set (pending s) \<longrightarrow> \<not> busy (step (StopJobSettles j f2) s))
   \<and> (PauseK p b' \<in> set (pending s) \<longrightarrow> \<not> busy (step (PauseSettles p b' f3) s))
   \<and> (busy (run es init) \<longrightarrow> op_pending (run es init))"
proof -
  have "busy (run es init) \<longrightarrow> op_pending (run es init) \<or> settle_pending (run es init)"
    by (rule run_busy_covered) (simp add: init_quiet)
  moreover have "\<not> settle_pending (run es init)"
    by (rule run_no_settle) (simp add: init_quiet)
  ultimately show ?thesis
    by (simp add: step_def onStart_settled_def onStop_settled_def onPause_settled_def)
qed

text \<open>A start that fails in transport, a stop the backend refuses, a pause that succeeds.\<close>

theorem busy_always_cleared_witness:
  "StartK ''b1'' ''c1'' ''m1'' \<in> set (pending (run starting init))
   \<and> \<not> busy (step (StartJobSettles ''b1'' ''c1'' ''m1'' (Rejected ''Failed to fetch''))
                (run starting init))
   \<and> StopK ''j42'' \<in> set (pending (run stopping init))
   \<and> \<not> busy (step (StopJobSettles ''j42'' (error_reply ''no such job'' ())) (run stopping init))
   \<and> PauseK False ''b1'' \<in> set (pending (run pausing init))
   \<and> \<not> busy (step (PauseSettles False ''b1'' (ok_reply ())) (run pausing init))
   \<and> busy (run starting init) \<and> op_pending (run starting init)"
proof -
  have 1: "StartK ''b1'' ''c1'' ''m1'' \<in> set (pending (run starting init))"
    by code_simp
  have 2: "StopK ''j42'' \<in> set (pending (run stopping init))"
    by code_simp
  have 3: "PauseK False ''b1'' \<in> set (pending (run pausing init))"
    by code_simp
  have 4: "busy (run starting init)"
    by code_simp
  show ?thesis
    using 1 2 3 4
      busy_always_cleared [of "''b1''" "''c1''" "''m1''" "run starting init"
        "Rejected ''Failed to fetch''" "''j42''" "error_reply ''no such job'' ()" False "''b1''"
        "ok_reply ()" starting]
      busy_always_cleared [of "''b1''" "''c1''" "''m1''" "run stopping init"
        "Rejected ''Failed to fetch''" "''j42''" "error_reply ''no such job'' ()" False "''b1''"
        "ok_reply ()" starting]
      busy_always_cleared [of "''b1''" "''c1''" "''m1''" "run pausing init"
        "Rejected ''Failed to fetch''" "''j42''" "error_reply ''no such job'' ()" False "''b1''"
        "ok_reply ()" starting]
    by blast
qed

text \<open>
  C9. Under the start precondition (the can-start guard holds, hence no job is held) the
  settle-delay branch of the start handler is not taken: a start invocation that passes
  the guard schedules no timer and issues the start request at once, and in no reachable
  state is a settle delay running.
\<close>

theorem settle_delay_never_taken:
  "(canStart s \<longrightarrow>
      \<not> truthy (jobId s)
      \<and> timeouts (onStart s) = timeouts s
      \<and> timeouts (step ClickStart s) = timeouts s
      \<and> network (step ClickStart s) =
          network s @
          [POST_json (BACKEND @ ''/jobs/start'')
             [(''board_id'', selectedBoardId s), (''camera'', selectedCameraId s),
              (''model'', selectedModelId s)]]
      \<and> pending (step ClickStart s) =
          pending s @ [StartK (selectedBoardId s) (selectedCameraId s) (selectedModelId s)])
   \<and> \<not> settle_pending (run es init)"
proof -
  have "\<not> settle_pending (run es init)"
    by (rule run_no_settle) (simp add: init_quiet)
  moreover have "network (step ClickStart s) = network (onStart s)
      \<and> pending (step ClickStart s) = pending (onStart s)
      \<and> timeouts (step ClickStart s) = timeouts (onStart s)" if "canStart s"
    using that commit_requests_same [of "onStart s" s]
    by (simp add: step_def onStart_no_delay await_def)
  ultimately show ?thesis
    by (auto simp: onStart_no_delay await_def canStart_def)
qed

text \<open>Board, camera and model are selected; the click on Start.\<close>

theorem settle_delay_never_taken_witness:
  "canStart (run selecting init)
   \<and> network (step ClickStart (run selecting init)) =
       network (run selecting init) @
       [POST_json (BACKEND @ ''/jobs/start'')
          [(''board_id'', ''b1''), (''camera'', ''c1''), (''model'', ''m1'')]]
   \<and> timeouts (step ClickStart (run selecting init)) = []"
proof -
  have 1: "canStart (run selecting init)"
    by code_simp
  have 2: "selectedBoardId (run selecting init) = ''b1''"
    "selectedCameraId (run selecting init) = ''c1''"
    "selectedModelId (run selecting init) = ''m1''"
    "timeouts (run selecting init) = []"
    by code_simp+
  show ?thesis
    using 1 settle_delay_never_taken [of "run selecting init" "[]"]
    unfolding 2 by blast
qed

section \<open>Properties of the REST client\<close>

text \<open>
  C10. The stop-job function does not use its job-id argument for the request or for the
  result: whatever two job ids are passed, the request issued is the same POST to the
  stop endpoint, without headers and without a body, and the promise settles the same way
  for the same answer of the backend. (Only the diagnostic console line mentions the id.)
\<close>

theorem stopJob_ignores_jobId:
  "req (stopJob j1 :: 'a api_call) = req (stopJob j2 :: 'a api_call)
   \<and> result (stopJob j1 :: 'a api_call) f = result (stopJob j2) f
   \<and> verb (req (stopJob j1 :: 'a api_call)) = ''POST''
   \<and> url (req (stopJob j1 :: 'a api_call)) = BACKEND @ ''/jobs/stop''
   \<and> body (req (stopJob j1 :: 'a api_call)) = None"
  by (simp add: stopJob_def POST_def)

text \<open>Two job ids, and a backend that refuses the stop.\<close>

theorem stopJob_ignores_jobId_witness:
  "req (stopJob ''j42'' :: unit api_call) = req (stopJob ''j7'' :: unit api_call)
   \<and> result (stopJob ''j42'') (error_reply ''no such job'' ()) =
       Inl ''Failed to stop job: no such job''
   \<and> result (stopJob ''j7'') (error_reply ''no such job'' ()) =
       Inl ''Failed to stop job: no such job''"
proof -
  have "result (stopJob ''j7'') (error_reply ''no such job'' ()) =
       Inl ''Failed to stop job: no such job''"
    by code_simp
  then show ?thesis
    using stopJob_ignores_jobId [of "''j42''" "''j7''" "error_reply ''no such job'' ()"]
    by simp
qed

end
